theory Spec2Isabelle
  imports Main
begin

section \<open>JavaScript values used by the booking code\<close>

text \<open>
  The booking code reads dates through the local-time getters of \<open>Date\<close>
  (\<open>getFullYear\<close>, \<open>getMonth\<close>, \<open>getDate\<close>, \<open>getHours\<close>, \<open>getMinutes\<close>). A \<open>Date\<close> is
  modelled by those five fields, or it is the Invalid Date, whose getters all return NaN.
  A getter therefore returns \<open>nat option\<close> with \<open>None\<close> for NaN, and \<open>===\<close> on numbers is
  \<open>js_eq\<close>: NaN is equal to nothing, not even to itself.
\<close>

datatype jsdate = InvalidDate | LocalDate nat nat nat nat nat

fun getFullYear :: "jsdate \<Rightarrow> nat option" where
  "getFullYear InvalidDate = None"
| "getFullYear (LocalDate y m d h mi) = Some y"

fun getMonth :: "jsdate \<Rightarrow> nat option" where
  "getMonth InvalidDate = None"
| "getMonth (LocalDate y m d h mi) = Some m"

fun getDate :: "jsdate \<Rightarrow> nat option" where
  "getDate InvalidDate = None"
| "getDate (LocalDate y m d h mi) = Some d"

fun getHours :: "jsdate \<Rightarrow> nat option" where
  "getHours InvalidDate = None"
| "getHours (LocalDate y m d h mi) = Some h"

fun getMinutes :: "jsdate \<Rightarrow> nat option" where
  "getMinutes InvalidDate = None"
| "getMinutes (LocalDate y m d h mi) = Some mi"

fun js_eq :: "nat option \<Rightarrow> nat option \<Rightarrow> bool" where
  "js_eq (Some a) (Some b) = (a = b)"
| "js_eq _ _ = False"

text \<open>\<open>a < b\<close> on two dates compares their instants; with an Invalid Date it is false.\<close>

fun date_lt :: "jsdate \<Rightarrow> jsdate \<Rightarrow> bool" where
  "date_lt (LocalDate y m d h mi) (LocalDate y' m' d' h' mi') =
     (y < y' \<or> (y = y' \<and> (m < m' \<or> (m = m' \<and> (d < d' \<or> (d = d' \<and>
        (h < h' \<or> (h = h' \<and> mi < mi'))))))))"
| "date_lt _ _ = False"

text \<open>
  \<open>Number(s)\<close> on the strings the code applies it to (the parts of a slot such as
  \<open>10:00\<close>): a string of decimal digits is its value, the empty string is 0, anything
  else is NaN.
\<close>

definition digit :: "char \<Rightarrow> nat option" where
  "digit c = map_of
     [(CHR ''0'', 0), (CHR ''1'', 1), (CHR ''2'', 2), (CHR ''3'', 3), (CHR ''4'', 4),
      (CHR ''5'', 5), (CHR ''6'', 6), (CHR ''7'', 7), (CHR ''8'', 8), (CHR ''9'', 9)] c"

fun digits_from :: "nat \<Rightarrow> string \<Rightarrow> nat option" where
  "digits_from acc [] = Some acc"
| "digits_from acc (c # cs) =
     (case digit c of None \<Rightarrow> None | Some d \<Rightarrow> digits_from (10 * acc + d) cs)"

definition Number :: "string \<Rightarrow> nat option" where
  "Number s = digits_from 0 s"

fun split_on :: "char \<Rightarrow> string \<Rightarrow> string list" where
  "split_on c [] = [[]]"
| "split_on c (x # xs) =
     (if x = c then [] # split_on c xs
      else (case split_on c xs of [] \<Rightarrow> [[x]] | w # ws \<Rightarrow> (x # w) # ws))"

text \<open>
  \<open>new Date(s)\<close> belongs to the JavaScript engine and is a parameter \<open>D\<close> of the
  functions below: the \<open>Date\<close> that the engine builds from a string, read in local
  time. The examples use \<open>isoDate east\<close>, which reads the two forms that the booking
  code builds from well-formed arguments, as the V8 engine does in a browser whose zone
  is \<open>east\<close> hours ahead of UTC (2 for Europe/Sofia in winter): \<open>YYYY-MM-DDTHH:MM\<close> is
  local time, \<open>YYYY-MM-DD\<close> is midnight UTC, which is \<open>east\<close> o'clock local time; a day
  beyond the end of its month rolls over into the next month and \<open>24:00\<close> is midnight of
  the next day.
\<close>

definition leapYear :: "nat \<Rightarrow> bool" where
  "leapYear y = ((y mod 4 = 0 \<and> y mod 100 \<noteq> 0) \<or> y mod 400 = 0)"

definition daysInMonth :: "nat \<Rightarrow> nat \<Rightarrow> nat" where
  "daysInMonth y m =
     (if m = 2 then (if leapYear y then 29 else 28)
      else if m = 4 \<or> m = 6 \<or> m = 9 \<or> m = 11 then 30 else 31)"

definition rollOver :: "nat \<Rightarrow> nat \<Rightarrow> nat \<Rightarrow> nat \<Rightarrow> nat \<Rightarrow> jsdate" where
  "rollOver y m d h mi =
     (if d \<le> daysInMonth y m then LocalDate y m d h mi
      else if m = 12 then LocalDate (y + 1) 1 (d - daysInMonth y m) h mi
      else LocalDate y (m + 1) (d - daysInMonth y m) h mi)"

definition isoDay :: "string \<Rightarrow> (nat \<times> nat \<times> nat) option" where
  "isoDay s =
     (if length s = 10 \<and> s ! 4 = CHR ''-'' \<and> s ! 7 = CHR ''-''
      then (case (Number (take 4 s), Number (take 2 (drop 5 s)), Number (drop 8 s)) of
              (Some y, Some m, Some d) \<Rightarrow>
                 if 1 \<le> m \<and> m \<le> 12 \<and> 1 \<le> d \<and> d \<le> 31 then Some (y, m, d) else None
            | _ \<Rightarrow> None)
      else None)"

definition isoTime :: "string \<Rightarrow> (nat \<times> nat) option" where
  "isoTime s =
     (if length s = 5 \<and> s ! 2 = CHR '':''
      then (case (Number (take 2 s), Number (drop 3 s)) of
              (Some h, Some mi) \<Rightarrow>
                 if (h \<le> 23 \<and> mi \<le> 59) \<or> (h = 24 \<and> mi = 0) then Some (h, mi) else None
            | _ \<Rightarrow> None)
      else None)"

definition isoDate :: "nat \<Rightarrow> string \<Rightarrow> jsdate" where
  "isoDate east s =
     (if length s = 10 then
        (case isoDay s of
           None \<Rightarrow> InvalidDate
         | Some (y, m, d) \<Rightarrow> rollOver y m d east 0)
      else if length s = 16 \<and> s ! 10 = CHR ''T'' then
        (case (isoDay (take 10 s), isoTime (drop 11 s)) of
           (Some (y, m, d), Some (h, mi)) \<Rightarrow>
              if h = 24 then rollOver y m (d + 1) 0 0 else rollOver y m d h mi
         | _ \<Rightarrow> InvalidDate)
      else InvalidDate)"

definition sofiaDate :: "string \<Rightarrow> jsdate" where
  "sofiaDate = isoDate 2"

section \<open>Appointments and the slot grid (services/bookingManager.ts)\<close>

datatype apt_status = Pending | Confirmed | Completed | Cancelled

text \<open>
  An appointment as the voice agent reads and writes it. The stored \<open>date\<close> is an ISO
  instant; the record keeps the \<open>Date\<close> that \<open>new Date(apt.date)\<close> yields.
\<close>

record Appointment =
  apt_id :: string
  serviceId :: string
  barberId :: string
  date :: jsdate
  customerName :: string
  customerEmail :: string
  status :: apt_status

definition TIME_SLOTS :: "string list" where
  "TIME_SLOTS = [''10:00'', ''11:00'', ''12:00'', ''13:00'', ''14:00'', ''15:00'',
                 ''16:00'', ''17:00'', ''18:00'']"

definition isSlotAvailable ::
  "(string \<Rightarrow> jsdate) \<Rightarrow> string \<Rightarrow> string \<Rightarrow> string \<Rightarrow> Appointment list \<Rightarrow> bool" where
  "isSlotAvailable D time dateToCheck bId appointments =
     (if dateToCheck = [] \<or> bId = [] then True
      else
        let targetDate = D (dateToCheck @ ''T'' @ time);
            conflict = list_ex (\<lambda>apt.
              if barberId apt \<noteq> bId \<or> status apt = Cancelled then False
              else
                let aptDate = date apt;
                    sameDay = (js_eq (getDate aptDate) (getDate targetDate)
                               \<and> js_eq (getMonth aptDate) (getMonth targetDate)
                               \<and> js_eq (getFullYear aptDate) (getFullYear targetDate))
                in if \<not> sameDay then False
                   else js_eq (getHours aptDate) (getHours targetDate)
                        \<and> js_eq (getMinutes aptDate) (getMinutes targetDate))
              appointments
        in \<not> conflict)"

definition getFreeSlots ::
  "(string \<Rightarrow> jsdate) \<Rightarrow> string \<Rightarrow> string \<Rightarrow> Appointment list \<Rightarrow> string list" where
  "getFreeSlots D d bId appointments =
     filter (\<lambda>slot. isSlotAvailable D slot d bId appointments) TIME_SLOTS"

text \<open>
  What the code reads from the calendar: today's date and the hour in the
  Europe/Sofia zone, the milliseconds elapsed since local midnight, and the Sofia date
  of the day \<open>i\<close> days after the start date of a search.
\<close>

record clock =
  todaySofia :: string
  hourSofia :: nat
  msOfDay :: nat
  dayAhead :: "nat \<Rightarrow> string"

record slot_ref =
  slot_date :: string
  slot_time :: string
  slot_barberId :: string

text \<open>
  \<open>findSlotForBarber\<close> walks 30 days and, within a day, the grid in order, and returns
  the first slot that is not skipped and is available. A slot of today is skipped when
  its hour is not after the current hour.
\<close>

definition skipped :: "clock \<Rightarrow> string \<Rightarrow> string \<Rightarrow> bool" where
  "skipped clk dateStr slot =
     (dateStr = todaySofia clk \<and>
      (case split_on CHR '':'' slot of
         [] \<Rightarrow> False
       | part # _ \<Rightarrow>
           (case Number part of
              None \<Rightarrow> False
            | Some slotHour \<Rightarrow> slotHour \<le> hourSofia clk)))"

definition candidates :: "clock \<Rightarrow> (string \<times> string) list" where
  "candidates clk = concat (map (\<lambda>i. map (\<lambda>slot. (dayAhead clk i, slot)) TIME_SLOTS) [0..<30])"

definition findSlotForBarber ::
  "(string \<Rightarrow> jsdate) \<Rightarrow> string \<Rightarrow> Appointment list \<Rightarrow> clock \<Rightarrow> slot_ref option" where
  "findSlotForBarber D bId appointments clk =
     (case List.find (\<lambda>(dateStr, slot).
               \<not> skipped clk dateStr slot \<and> isSlotAvailable D slot dateStr bId appointments)
             (candidates clk) of
        None \<Rightarrow> None
      | Some (dateStr, slot) \<Rightarrow>
          Some \<lparr>slot_date = dateStr, slot_time = slot, slot_barberId = bId\<rparr>)"

definition earlier :: "(string \<Rightarrow> jsdate) \<Rightarrow> slot_ref \<Rightarrow> slot_ref \<Rightarrow> bool" where
  "earlier D a b = date_lt (D (slot_date a @ ''T'' @ slot_time a))
                           (D (slot_date b @ ''T'' @ slot_time b))"

text \<open>The body of the loop over all barberIds: keep the slot found unless the new one is earlier.\<close>

definition keepEarliest ::
  "(string \<Rightarrow> jsdate) \<Rightarrow> slot_ref option \<Rightarrow> slot_ref option \<Rightarrow> slot_ref option" where
  "keepEarliest D earliestSlot found =
     (case found of
        None \<Rightarrow> earliestSlot
      | Some slot \<Rightarrow>
          (case earliestSlot of
             None \<Rightarrow> Some slot
           | Some e \<Rightarrow> if earlier D slot e then Some slot else earliestSlot))"

definition findNextAvailableSlot ::
  "(string \<Rightarrow> jsdate) \<Rightarrow> Appointment list \<Rightarrow> string list \<Rightarrow> string option \<Rightarrow> clock
     \<Rightarrow> slot_ref option" where
  "findNextAvailableSlot D appointments barberIds bId clk =
     (if bId \<noteq> None \<and> bId \<noteq> Some []
      then findSlotForBarber D (the bId) appointments clk
      else foldl (\<lambda>earliestSlot barber.
                    keepEarliest D earliestSlot (findSlotForBarber D barber appointments clk))
                 None barberIds)"

text \<open>
  An appointment occupies a slot of a barber when it is that barber's and its date and
  time of day are those of the slot.
\<close>

definition occupies ::
  "(string \<Rightarrow> jsdate) \<Rightarrow> Appointment \<Rightarrow> string \<Rightarrow> string \<Rightarrow> string \<Rightarrow> bool" where
  "occupies D apt time d bId =
     (let t = D (d @ ''T'' @ time) in
      barberId apt = bId
      \<and> js_eq (getFullYear (date apt)) (getFullYear t)
      \<and> js_eq (getMonth (date apt)) (getMonth t)
      \<and> js_eq (getDate (date apt)) (getDate t)
      \<and> js_eq (getHours (date apt)) (getHours t)
      \<and> js_eq (getMinutes (date apt)) (getMinutes t))"

definition notCancelled :: "Appointment \<Rightarrow> bool" where
  "notCancelled apt = (status apt \<noteq> Cancelled)"

text \<open>
  An example: a cancelled appointment with barber \<open>b1\<close> on 20 March 2026 at 10:00, and
  the evening before.
\<close>

definition cancelledIvan :: Appointment where
  "cancelledIvan = \<lparr>apt_id = ''a1'', serviceId = ''s1'', barberId = ''b1'',
                     date = LocalDate 2026 3 20 10 0, customerName = ''Ivan'',
                     customerEmail = ''+359888123456'', status = Cancelled\<rparr>"

definition eveningBefore :: clock where
  "eveningBefore = \<lparr>todaySofia = ''2026-03-19'', hourSofia = 20, msOfDay = 72000000,
                     dayAhead = (\<lambda>i. if i = 0 then ''2026-03-19'' else ''2026-03-20'')\<rparr>"

section \<open>The booking conversation (hooks/useConversation.ts)\<close>

datatype ConversationStep =
  StepService | StepDatetime | StepName | StepPhone | StepConfirmation | StepComplete

text \<open>A field of \<open>BookingData\<close> is a string or \<open>null\<close>; \<open>None\<close> is \<open>null\<close>.\<close>

record BookingData =
  service :: "string option"
  dateTime :: "string option"
  name :: "string option"
  phone :: "string option"
  price :: "int option"

text \<open>
  \<open>Partial<BookingData>\<close>: a key is absent (\<open>None\<close>) or carries a value of the
  field's type, which may be \<open>null\<close>.
\<close>

record BookingUpdate =
  upd_service :: "string option option"
  upd_dateTime :: "string option option"
  upd_name :: "string option option"
  upd_phone :: "string option option"
  upd_price :: "int option option"

record Conversation =
  bookingData :: BookingData
  currentStep :: ConversationStep
  conversationHistory :: "(string \<times> string) list"

definition INITIAL_BOOKING_DATA :: BookingData where
  "INITIAL_BOOKING_DATA =
     \<lparr>service = None, dateTime = None, name = None, phone = None, price = None\<rparr>"

definition initialConversation :: Conversation where
  "initialConversation =
     \<lparr>bookingData = INITIAL_BOOKING_DATA, currentStep = StepService, conversationHistory = []\<rparr>"

text \<open>\<open>!v\<close> is false for a non-empty string only: \<open>null\<close> and the empty string are falsy.\<close>

definition truthy :: "string option \<Rightarrow> bool" where
  "truthy v = (case v of None \<Rightarrow> False | Some s \<Rightarrow> s \<noteq> [])"

text \<open>The object spread \<open>{ ...prev, ...updates }\<close>, one field at a time.\<close>

definition spread :: "'a option \<Rightarrow> 'a option option \<Rightarrow> 'a option" where
  "spread prev upd = (case upd of None \<Rightarrow> prev | Some v \<Rightarrow> v)"

definition updateBookingData :: "BookingUpdate \<Rightarrow> Conversation \<Rightarrow> Conversation" where
  "updateBookingData updates c =
     (let prev = bookingData c;
          newData = \<lparr>service = spread (service prev) (upd_service updates),
                     dateTime = spread (dateTime prev) (upd_dateTime updates),
                     name = spread (name prev) (upd_name updates),
                     phone = spread (phone prev) (upd_phone updates),
                     price = spread (price prev) (upd_price updates)\<rparr>
      in c\<lparr>bookingData := newData,
            currentStep :=
              (if \<not> truthy (service newData) then StepService
               else if \<not> truthy (dateTime newData) then StepDatetime
               else if \<not> truthy (name newData) then StepName
               else if \<not> truthy (phone newData) then StepPhone
               else StepConfirmation)\<rparr>)"

definition resetConversation :: "Conversation \<Rightarrow> Conversation" where
  "resetConversation c = initialConversation"

definition isComplete :: "Conversation \<Rightarrow> bool" where
  "isComplete c =
     (service (bookingData c) \<noteq> None
      \<and> dateTime (bookingData c) \<noteq> None
      \<and> name (bookingData c) \<noteq> None
      \<and> phone (bookingData c) \<noteq> None
      \<and> currentStep c = StepConfirmation)"

text \<open>The states after each call of a sequence of \<open>updateBookingData\<close> calls, in order.\<close>

fun runUpdates :: "Conversation \<Rightarrow> BookingUpdate list \<Rightarrow> Conversation list" where
  "runUpdates c [] = []"
| "runUpdates c (u # us) = updateBookingData u c # runUpdates (updateBookingData u c) us"

text \<open>
  The specification's reading of the current step: the first field, in the canonical
  order service, dateTime, name, phone, that is not filled, and confirmation when all
  four are filled.
\<close>

definition canonicalOrder :: "(ConversationStep \<times> (BookingData \<Rightarrow> string option)) list" where
  "canonicalOrder =
     [(StepService, service), (StepDatetime, dateTime), (StepName, name), (StepPhone, phone)]"

definition firstUnfilled :: "BookingData \<Rightarrow> ConversationStep" where
  "firstUnfilled d =
     (case List.find (\<lambda>(st, field). \<not> truthy (field d)) canonicalOrder of
        None \<Rightarrow> StepConfirmation
      | Some (st, field) \<Rightarrow> st)"

fun stepRank :: "ConversationStep \<Rightarrow> nat" where
  "stepRank StepService = 0"
| "stepRank StepDatetime = 1"
| "stepRank StepName = 2"
| "stepRank StepPhone = 3"
| "stepRank StepConfirmation = 4"
| "stepRank StepComplete = 5"

text \<open>An update that only fills: every key it carries has a non-empty string.\<close>

definition fills :: "string option option \<Rightarrow> bool" where
  "fills upd = (case upd of None \<Rightarrow> True | Some v \<Rightarrow> truthy v)"

definition fillOnly :: "BookingUpdate \<Rightarrow> bool" where
  "fillOnly u = (fills (upd_service u) \<and> fills (upd_dateTime u)
                 \<and> fills (upd_name u) \<and> fills (upd_phone u))"

definition allFilled :: "BookingData \<Rightarrow> bool" where
  "allFilled d = (truthy (service d) \<and> truthy (dateTime d) \<and> truthy (name d) \<and> truthy (phone d))"

text \<open>Two updates used as examples: the phone is given first, then the service.\<close>

definition fillPhone :: BookingUpdate where
  "fillPhone = \<lparr>upd_service = None, upd_dateTime = None, upd_name = None,
                 upd_phone = Some (Some ''0888123456''), upd_price = None\<rparr>"

definition fillService :: BookingUpdate where
  "fillService = \<lparr>upd_service = Some (Some ''Combo''), upd_dateTime = None, upd_name = None,
                   upd_phone = None, upd_price = Some (Some 65)\<rparr>"

definition fillAll :: BookingUpdate where
  "fillAll = \<lparr>upd_service = Some (Some ''Combo''), upd_dateTime = Some (Some ''20.02 15:00''),
               upd_name = Some (Some ''Ivan''), upd_phone = Some (Some ''0888123456''),
               upd_price = Some (Some 65)\<rparr>"

section \<open>The turn controller (VoiceAgentHybrid.tsx with hooks/useSonioxSTT.ts)\<close>

datatype hybrid_status = HIdle | HListening | HProcessing | HSpeaking

text \<open>
  A JavaScript string is a sequence of UTF-16 code units, each a number below 65536;
  \<open>text.length\<close> is the number of code units. \<open>units\<close> gives the code units of a string
  of ASCII characters.
\<close>

type_synonym jsstring = "nat list"

definition units :: "string \<Rightarrow> jsstring" where
  "units s = map of_char s"

text \<open>
  The component's state and refs that decide the end of a turn. \<open>pendingTimeouts\<close> holds
  the timeouts that \<open>setTimeout\<close> has armed and that have neither fired nor been cleared,
  each with its handle, the time it is due and the text its callback captured;
  \<open>statusTrace\<close> records every \<open>setStatus\<close> call in order. A timer handle is never falsy.
\<close>

record TurnController =
  hybridStatus :: hybrid_status
  transcript :: jsstring
  vadTimeoutRef :: "nat option"
  isProcessingRef :: bool
  pendingTimeouts :: "(nat \<times> nat \<times> jsstring) list"
  nextTimeoutId :: nat
  clockMs :: nat
  statusTrace :: "hybrid_status list"

definition setStatus :: "hybrid_status \<Rightarrow> TurnController \<Rightarrow> TurnController" where
  "setStatus st s = s\<lparr>hybridStatus := st, statusTrace := statusTrace s @ [st]\<rparr>"

definition clearTimeout :: "nat \<Rightarrow> TurnController \<Rightarrow> TurnController" where
  "clearTimeout h s = s\<lparr>pendingTimeouts := filter (\<lambda>t. fst t \<noteq> h) (pendingTimeouts s)\<rparr>"

text \<open>
  \<open>String.prototype.trim\<close> removes from both ends the code units that are white space
  or line terminators: U+0009 to U+000D, U+0020, U+00A0, U+1680, U+2000 to U+200A,
  U+2028, U+2029, U+202F, U+205F, U+3000 and U+FEFF.
\<close>

definition isSpace :: "nat \<Rightarrow> bool" where
  "isSpace c =
     ((9 \<le> c \<and> c \<le> 13) \<or> c = 32 \<or> c = 160 \<or> c = 5760 \<or> (8192 \<le> c \<and> c \<le> 8202)
      \<or> c = 8232 \<or> c = 8233 \<or> c = 8239 \<or> c = 8287 \<or> c = 12288 \<or> c = 65279)"

definition trim :: "jsstring \<Rightarrow> jsstring" where
  "trim s = rev (dropWhile isSpace (rev (dropWhile isSpace s)))"

definition handleFinalTranscript :: "jsstring \<Rightarrow> TurnController \<Rightarrow> TurnController" where
  "handleFinalTranscript text s =
     (if isProcessingRef s \<or> trim text = [] then s
      else setStatus HProcessing (s\<lparr>isProcessingRef := True\<rparr>))"

definition handleTranscript :: "jsstring \<Rightarrow> bool \<Rightarrow> TurnController \<Rightarrow> TurnController" where
  "handleTranscript text isFinalResult s =
     (let s1 = s\<lparr>transcript := text\<rparr>;
          s2 = (case vadTimeoutRef s1 of None \<Rightarrow> s1 | Some h \<Rightarrow> clearTimeout h s1)
      in if length text > 5 \<and> \<not> isFinalResult \<and> \<not> isProcessingRef s2
         then s2\<lparr>pendingTimeouts :=
                   pendingTimeouts s2 @ [(nextTimeoutId s2, clockMs s2 + 1500, text)],
                 vadTimeoutRef := Some (nextTimeoutId s2),
                 nextTimeoutId := Suc (nextTimeoutId s2)\<rparr>
         else s2)"

text \<open>
  The transcript message of the speech-to-text socket: a message with an empty text is
  dropped; a final one calls \<open>onFinal\<close> and then \<open>onTranscript\<close>.
\<close>

definition onTranscriptMessage :: "jsstring \<Rightarrow> bool \<Rightarrow> TurnController \<Rightarrow> TurnController" where
  "onTranscriptMessage text final s =
     (if text = [] then s
      else handleTranscript text final (if final then handleFinalTranscript text s else s))"

text \<open>A timeout that is due fires once: it leaves the pending ones and runs its callback.\<close>

definition fireTimeout :: "nat \<times> nat \<times> jsstring \<Rightarrow> TurnController \<Rightarrow> TurnController" where
  "fireTimeout t s =
     (if t \<in> set (pendingTimeouts s)
      then handleFinalTranscript (snd (snd t))
             (s\<lparr>pendingTimeouts := filter (\<lambda>t'. t' \<noteq> t) (pendingTimeouts s)\<rparr>)
      else s)"

definition elapse :: "nat \<Rightarrow> TurnController \<Rightarrow> TurnController" where
  "elapse dt s =
     (let t' = clockMs s + dt
      in foldl (\<lambda>s' t. fireTimeout t s') (s\<lparr>clockMs := t'\<rparr>)
           (filter (\<lambda>t. fst (snd t) \<le> t') (pendingTimeouts s)))"

text \<open>The callbacks of the speech synthesis and the failure branch of the processing.\<close>

definition onStart :: "TurnController \<Rightarrow> TurnController" where
  "onStart s = setStatus HSpeaking s"

definition onEnd :: "TurnController \<Rightarrow> TurnController" where
  "onEnd s = (setStatus HListening s)\<lparr>isProcessingRef := False\<rparr>"

definition processingFailed :: "TurnController \<Rightarrow> TurnController" where
  "processingFailed s = (setStatus HIdle s)\<lparr>isProcessingRef := False\<rparr>"

definition stopSession :: "TurnController \<Rightarrow> TurnController" where
  "stopSession s =
     (let s1 = (setStatus HIdle s)\<lparr>transcript := []\<rparr>
      in case vadTimeoutRef s1 of None \<Rightarrow> s1 | Some h \<Rightarrow> clearTimeout h s1)"

definition listeningController :: TurnController where
  "listeningController =
     \<lparr>hybridStatus = HListening, transcript = [], vadTimeoutRef = None,
      isProcessingRef = False, pendingTimeouts = [], nextTimeoutId = 1, clockMs = 0,
      statusTrace = [HListening]\<rparr>"

datatype turn_event =
  Transcript jsstring bool | Elapse nat | TtsStart | TtsEnd | ProcessingFailed | StopSession

fun turnStep :: "TurnController \<Rightarrow> turn_event \<Rightarrow> TurnController" where
  "turnStep s (Transcript text final) = onTranscriptMessage text final s"
| "turnStep s (Elapse dt) = elapse dt s"
| "turnStep s TtsStart = onStart s"
| "turnStep s TtsEnd = onEnd s"
| "turnStep s ProcessingFailed = processingFailed s"
| "turnStep s StopSession = stopSession s"

definition runTurn :: "turn_event list \<Rightarrow> TurnController \<Rightarrow> TurnController" where
  "runTurn evs s = foldl turnStep s evs"

definition processingCount :: "TurnController \<Rightarrow> nat" where
  "processingCount s = length (filter (\<lambda>st. st = HProcessing) (statusTrace s))"

text \<open>
  A user utterance in the specification's words: incremental transcript updates, each
  after some delay, followed by a final-transcript signal or by 1500 ms of silence.
\<close>

datatype terminator = FinalSignal nat jsstring | Silence

fun incremental :: "(nat \<times> jsstring) list \<Rightarrow> turn_event list" where
  "incremental [] = []"
| "incremental ((gap, text) # rest) = Elapse gap # Transcript text False # incremental rest"

fun closing :: "terminator \<Rightarrow> turn_event list" where
  "closing (FinalSignal gap text) = [Elapse gap, Transcript text True]"
| "closing Silence = [Elapse 1500]"

definition utterance :: "(nat \<times> jsstring) list \<Rightarrow> terminator \<Rightarrow> turn_event list" where
  "utterance incs term = incremental incs @ closing term"

text \<open>The text that ends the utterance: that of the final signal, or the last update.\<close>

fun closingText :: "(nat \<times> jsstring) list \<Rightarrow> terminator \<Rightarrow> jsstring" where
  "closingText incs (FinalSignal gap text) = text"
| "closingText incs Silence = (case rev incs of [] \<Rightarrow> [] | (gap, text) # _ \<Rightarrow> text)"

definition endsTurn :: "(nat \<times> jsstring) list \<Rightarrow> terminator \<Rightarrow> bool" where
  "endsTurn incs term =
     (trim (closingText incs term) \<noteq> []
      \<and> (term = Silence \<longrightarrow> length (closingText incs term) > 5))"

text \<open>At most one timeout is pending, and it is the one the ref holds.\<close>

definition oneTimer :: "TurnController \<Rightarrow> bool" where
  "oneTimer s =
     (length (pendingTimeouts s) \<le> 1
      \<and> list_all (\<lambda>t. vadTimeoutRef s = Some (fst t)) (pendingTimeouts s))"

text \<open>
  How a state relates to a later one while only transcript messages arrive and time
  passes: the processing flag stays set once set, and \<open>setStatus('processing')\<close> has been
  called once more exactly when the flag went from unset to set.
\<close>

definition advanced :: "TurnController \<Rightarrow> TurnController \<Rightarrow> bool" where
  "advanced s s' =
     ((isProcessingRef s \<longrightarrow> isProcessingRef s')
      \<and> processingCount s' =
          processingCount s + (if isProcessingRef s' \<and> \<not> isProcessingRef s then 1 else 0))"

text \<open>The events of an utterance: transcript messages and the passing of time.\<close>

fun speechEvent :: "turn_event \<Rightarrow> bool" where
  "speechEvent (Transcript text final) = True"
| "speechEvent (Elapse dt) = True"
| "speechEvent _ = False"

text \<open>
  Examples: a request spoken to a listening controller, a later one, a final signal
  whose text is three spaces, and one whose text is three no-break spaces.
\<close>

definition iskamChas :: jsstring where
  "iskamChas = units ''iskam chas''"

definition firstRequest :: "turn_event list" where
  "firstRequest = utterance [(200, iskamChas)] (FinalSignal 300 (units ''iskam chas utre''))"

definition secondRequest :: "turn_event list" where
  "secondRequest = utterance [(200, units ''v deset'')] (FinalSignal 300 (units ''v deset chasa''))"

definition blankFinal :: "turn_event list" where
  "blankFinal = utterance [] (FinalSignal 300 (units ''   ''))"

definition noBreakFinal :: "turn_event list" where
  "noBreakFinal = utterance [] (FinalSignal 300 [160, 160, 160])"

section \<open>The voice agent (components/VoiceAgent.tsx)\<close>

subsection \<open>Promises, timeouts and the backend\<close>

definition TOOL_TIMEOUT_MS :: nat where "TOOL_TIMEOUT_MS = 6000"
definition MAX_RECONNECTS :: nat where "MAX_RECONNECTS = 2"
definition RECONNECT_DELAY_MS :: nat where "RECONNECT_DELAY_MS = 1500"
definition APPOINTMENTS_CACHE_TTL_MS :: int where "APPOINTMENTS_CACHE_TTL_MS = 15000"
definition RANGE_CACHE_TTL_MS :: int where "RANGE_CACHE_TTL_MS = 20000"

text \<open>
  A promise of a backend operation settles after some milliseconds, with a value or with
  an \<open>Error\<close> (kept as its message), or it never settles. \<open>withTimeout\<close> races it
  against a timer that rejects with the message \<open>timeout\<close>; the result comes with the
  time the caller has waited.
\<close>

datatype 'a promise = Resolves nat 'a | RejectsWith nat string | NeverSettles

definition withTimeout :: "'a promise \<Rightarrow> nat \<Rightarrow> (string + 'a) \<times> nat" where
  "withTimeout p ms =
     (case p of
        Resolves d v \<Rightarrow> if d < ms then (Inr v, d) else (Inl ''timeout'', ms)
      | RejectsWith d m \<Rightarrow> if d < ms then (Inl m, d) else (Inl ''timeout'', ms)
      | NeverSettles \<Rightarrow> (Inl ''timeout'', ms))"

text \<open>
  The network as one backend operation meets it: the operation is answered after some
  milliseconds, fails after some milliseconds, or gets no answer at all.
\<close>

datatype net = Answers nat | Fails nat | Silent


text \<open>
  The environment of one tool call: the calendar, the \<open>Date\<close> that the engine builds
  from a string (\<open>new Date(s)\<close>, read in local time), the network for the reads and
  for the writes of the call, the id the store gives to a new document, and which dates
  lie within the last week and within the next 30 days.
\<close>

record env =
  calendar :: clock
  newDate :: "string \<Rightarrow> jsdate"
  readNet :: net
  writeNet :: net
  newDocId :: string
  sinceWeekAgo :: "jsdate \<Rightarrow> bool"
  withinThirtyDays :: "jsdate \<Rightarrow> bool"

text \<open>The messages of the code, transliterated from Bulgarian.\<close>

definition MSG_NO_BARBERS_ADDED :: string where
  "MSG_NO_BARBERS_ADDED = ''Nyama dobaveni friziori.''"
definition MSG_NO_SERVICES_ADDED :: string where
  "MSG_NO_SERVICES_ADDED = ''Nyama dobaveni uslugi.''"
definition MSG_NO_BARBERS :: string where
  "MSG_NO_BARBERS = ''Nyama nalichni friziori.''"
definition MSG_NO_SUCH_BARBER :: string where
  "MSG_NO_SUCH_BARBER = ''Nyama takav frizior.''"
definition MSG_NOTHING_SOON :: string where
  "MSG_NOTHING_SOON = ''Nyama svobodni chasove za skoro.''"
definition MSG_NO_CATALOG :: string where
  "MSG_NO_CATALOG = ''Nyama nalichni uslugi ili friziori.''"
definition MSG_INVALID_BARBER :: string where
  "MSG_INVALID_BARBER = ''Nevaliden frizior.''"
definition MSG_INVALID_SERVICE :: string where
  "MSG_INVALID_SERVICE = ''Nevalidna usluga.''"
definition MSG_SLOT_TAKEN :: string where
  "MSG_SLOT_TAKEN = ''Chasat veche e zaet. Molya izberete drug.''"
definition MSG_NOT_FOUND :: string where
  "MSG_NOT_FOUND = ''Ne namerih zapisani chasove s tova tarsene.''"
definition MSG_MISSING_DATA :: string where
  "MSG_MISSING_DATA = ''Lipsvat danni za premestvane (ID, data ili chas).''"
definition MSG_CANCELLED :: string where
  "MSG_CANCELLED = ''Chasat e otkazan uspeshno.''"
definition MSG_SLOW :: string where
  "MSG_SLOW = ''Vrazkata e bavna. Molya opitayte pak.''"
definition MSG_GENERIC :: string where
  "MSG_GENERIC = ''Vaznikna greshka''"
definition MSG_CREATE_FAILED :: string where
  "MSG_CREATE_FAILED = ''Neuspeshno zapisvane na chas''"
definition MSG_LOAD_FAILED :: string where
  "MSG_LOAD_FAILED = ''Neuspeshno zarezhdane na chasove''"
definition MSG_CUSTOMER_LOAD_FAILED :: string where
  "MSG_CUSTOMER_LOAD_FAILED = ''Neuspeshno zarezhdane na vashite chasove''"
definition MSG_UPDATE_FAILED :: string where
  "MSG_UPDATE_FAILED = ''Neuspeshna promyana na chas''"
definition MSG_CANCEL_FAILED :: string where
  "MSG_CANCEL_FAILED = ''Neuspeshno otkazvane na chas''"
definition MSG_RESCHEDULE_FAILED :: string where
  "MSG_RESCHEDULE_FAILED = ''Neuspeshno premestvane na chas''"
definition MSG_INVALID_TIME_VALUE :: string where
  "MSG_INVALID_TIME_VALUE = ''Invalid time value''"

text \<open>
  \<open>getAppointments\<close> (services/appointmentService.ts) with a barber and the two ends of
  a local day, as \<open>loadAppointmentsForDateRange\<close> calls it: the appointments of that
  barber on that day, ordered by date. The day is the local day of \<open>new Date(date)\<close>;
  with an Invalid Date, \<open>toISOString\<close> throws inside the function, which rejects at once.
\<close>

fun dateKey :: "jsdate \<Rightarrow> nat" where
  "dateKey InvalidDate = 0"
| "dateKey (LocalDate y m d h mi) = (((y * 12 + m) * 31 + d) * 24 + h) * 60 + mi"

fun onDay :: "jsdate \<Rightarrow> jsdate \<Rightarrow> bool" where
  "onDay (LocalDate y m d h mi) (LocalDate y' m' d' h' mi') = (y = y' \<and> m = m' \<and> d = d')"
| "onDay _ _ = False"

definition answer :: "net \<Rightarrow> string \<Rightarrow> 'a \<Rightarrow> 'a promise" where
  "answer n failure v =
     (case n of
        Answers ms \<Rightarrow> Resolves ms v
      | Fails ms \<Rightarrow> RejectsWith ms failure
      | Silent \<Rightarrow> NeverSettles)"

definition appointmentsOfDay :: "Appointment list \<Rightarrow> string \<Rightarrow> jsdate \<Rightarrow> Appointment list" where
  "appointmentsOfDay store bId targetDate =
     sort_key (\<lambda>a. dateKey (date a))
       (filter (\<lambda>a. (bId = [] \<or> barberId a = bId) \<and> onDay (date a) targetDate) store)"

definition loadAppointmentsForDateRange ::
  "env \<Rightarrow> Appointment list \<Rightarrow> string \<Rightarrow> string \<Rightarrow> Appointment list promise" where
  "loadAppointmentsForDateRange e store bId d =
     (let targetDate = newDate e d
      in if targetDate = InvalidDate then RejectsWith 0 MSG_LOAD_FAILED
         else answer (readNet e) MSG_LOAD_FAILED (appointmentsOfDay store bId targetDate))"

text \<open>\<open>getAppointments\<close> without a barber, from today to 30 days ahead.\<close>

definition getAppointmentsRange :: "env \<Rightarrow> Appointment list \<Rightarrow> Appointment list promise" where
  "getAppointmentsRange e store =
     answer (readNet e) MSG_LOAD_FAILED
       (sort_key (\<lambda>a. dateKey (date a)) (filter (\<lambda>a. withinThirtyDays e (date a)) store))"

text \<open>
  \<open>createAppointment\<close>: the document is added under the id the store chooses. A write
  that is answered lands in the store even when the caller has stopped waiting for it.
\<close>

definition createAppointment ::
  "env \<Rightarrow> Appointment list \<Rightarrow> Appointment \<Rightarrow> Appointment promise \<times> Appointment list" where
  "createAppointment e store appointment =
     (let created = appointment\<lparr>apt_id := newDocId e\<rparr>
      in (answer (writeNet e) MSG_CREATE_FAILED created,
          (case writeNet e of Answers ms \<Rightarrow> store @ [created] | _ \<Rightarrow> store)))"

text \<open>\<open>updateAppointment\<close>: \<open>updateDoc\<close> fails on a document that does not exist.\<close>

definition updateAppointment ::
  "env \<Rightarrow> Appointment list \<Rightarrow> string \<Rightarrow> (Appointment \<Rightarrow> Appointment)
     \<Rightarrow> unit promise \<times> Appointment list" where
  "updateAppointment e store appointmentId change =
     (if appointmentId = [] then (RejectsWith 0 MSG_UPDATE_FAILED, store)
      else case writeNet e of
        Answers ms \<Rightarrow>
          if list_ex (\<lambda>a. apt_id a = appointmentId) store
          then (Resolves ms (),
                map (\<lambda>a. if apt_id a = appointmentId then change a else a) store)
          else (RejectsWith ms MSG_UPDATE_FAILED, store)
      | Fails ms \<Rightarrow> (RejectsWith ms MSG_UPDATE_FAILED, store)
      | Silent \<Rightarrow> (NeverSettles, store))"

text \<open>A \<open>catch\<close> that rethrows under another message.\<close>

definition rethrow :: "string \<Rightarrow> 'a promise \<Rightarrow> 'a promise" where
  "rethrow m p = (case p of RejectsWith ms old \<Rightarrow> RejectsWith ms m | _ \<Rightarrow> p)"

definition cancelAppointment ::
  "env \<Rightarrow> Appointment list \<Rightarrow> string \<Rightarrow> unit promise \<times> Appointment list" where
  "cancelAppointment e store appointmentId =
     (let (p, store') = updateAppointment e store appointmentId (\<lambda>a. a\<lparr>status := Cancelled\<rparr>)
      in (rethrow MSG_CANCEL_FAILED p, store'))"

definition rescheduleAppointment ::
  "env \<Rightarrow> Appointment list \<Rightarrow> string \<Rightarrow> string \<Rightarrow> string
     \<Rightarrow> unit promise \<times> Appointment list" where
  "rescheduleAppointment e store appointmentId newD newT =
     (let dateTime = newDate e (newD @ ''T'' @ newT)
      in if dateTime = InvalidDate then (RejectsWith 0 MSG_RESCHEDULE_FAILED, store)
         else let (p, store') = updateAppointment e store appointmentId (\<lambda>a. a\<lparr>date := dateTime\<rparr>)
              in (rethrow MSG_RESCHEDULE_FAILED p, store'))"

text \<open>
  Phone numbers: \<open>replace(/\D/g, '')\<close> keeps the decimal digits; a leading 0 becomes 359,
  and 359 is put in front of a number that does not start with it.
\<close>

definition onlyDigits :: "string \<Rightarrow> string" where
  "onlyDigits s = filter (\<lambda>c. digit c \<noteq> None) s"

definition startsWith :: "string \<Rightarrow> string \<Rightarrow> bool" where
  "startsWith s p = (take (length p) s = p)"

definition normalizePhone :: "string \<Rightarrow> string" where
  "normalizePhone raw =
     (let p0 = onlyDigits raw;
          p1 = (if startsWith p0 ''0'' then ''359'' @ drop 1 p0 else p0)
      in if \<not> startsWith p1 ''359'' then ''359'' @ p1 else p1)"

fun formatPhoneDigits :: "string \<Rightarrow> string" where
  "formatPhoneDigits [] = []"
| "formatPhoneDigits [c] = [c]"
| "formatPhoneDigits (c # cs) = c # CHR '' '' # formatPhoneDigits cs"

text \<open>
  \<open>getCustomerAppointments\<close>: the appointments of the last week and later that are not
  cancelled and match the phone (exactly, once normalised) or contain the search term
  in the customer's name, letter case ignored (for the letters a to z here).
\<close>

definition lowerChar :: "char \<Rightarrow> char" where
  "lowerChar c =
     (case map_of (zip ''ABCDEFGHIJKLMNOPQRSTUVWXYZ'' ''abcdefghijklmnopqrstuvwxyz'') c of
        None \<Rightarrow> c | Some l \<Rightarrow> l)"

definition toLowerCase :: "string \<Rightarrow> string" where
  "toLowerCase s = map lowerChar s"

fun jsIncludes :: "string \<Rightarrow> string \<Rightarrow> bool" where
  "jsIncludes [] needle = (needle = [])"
| "jsIncludes (c # cs) needle = (take (length needle) (c # cs) = needle \<or> jsIncludes cs needle)"

definition getCustomerAppointments ::
  "env \<Rightarrow> Appointment list \<Rightarrow> string \<Rightarrow> Appointment list promise" where
  "getCustomerAppointments e store phoneOrName =
     (let n0 = onlyDigits phoneOrName;
          n1 = (if startsWith n0 ''0'' then ''359'' @ drop 1 n0 else n0);
          normalizedPhone = (if \<not> startsWith n1 ''359'' \<and> length n1 > 5 then ''359'' @ n1 else n1);
          phoneToSearch = (if length normalizedPhone \<ge> 9 then Some (''+'' @ normalizedPhone) else None);
          searchTermLower = toLowerCase phoneOrName
      in answer (readNet e) MSG_CUSTOMER_LOAD_FAILED
           (filter (\<lambda>apt.
               if \<not> sinceWeekAgo e (date apt) \<or> status apt = Cancelled then False
               else if phoneToSearch = Some (customerEmail apt) then True
               else customerName apt \<noteq> []
                    \<and> jsIncludes (toLowerCase (customerName apt)) searchTermLower)
             (sort_key (\<lambda>a. dateKey (date a))
                (filter (\<lambda>a. sinceWeekAgo e (date a)) store))))"

subsection \<open>The component's state\<close>

record Barber =
  barber_id :: string
  barber_nameBg :: string

record Service =
  service_id :: string
  service_nameBg :: string

record AppState =
  barbers :: "Barber list"
  services :: "Service list"

datatype agent_status = Idle | Connecting | Listening | Speaking

datatype agent_error = ConnectionUnstable | Reconnecting nat nat

datatype log_outcome = OutcomeCompleted | OutcomeAbandoned | OutcomeError

text \<open>
  The calls made to the conversation log service: \<open>startConversationLog\<close>, whose id is
  \<open>conv_\<close> followed by the time, kept as that time; \<open>addConversationEvent\<close> for a tool
  call; and \<open>endConversationLog\<close> with the outcome and the booking flag. The events
  added for the transcripts and for an error message are left out.
\<close>

datatype log_call = StartLog nat | ToolCallLogged nat string | EndLog nat log_outcome bool

text \<open>
  What an asynchronous function of the component waits for at an \<open>await\<close>, with what
  it needs to go on: \<open>handleToggle\<close> waits for \<open>startConversationLog\<close> (which will
  return the log's id), then for \<open>connect\<close>, or for \<open>endConversationLog\<close>; the callback
  of a reconnect timeout waits for \<open>connect\<close>. The functions \<open>handleLiveEvent\<close> and
  \<open>scheduleReconnect\<close> that such a function hands on are those of the render in which it
  was created, and they read that render's \<open>isActive\<close>, which is kept with it.
\<close>

datatype continuation =
    AwaitLogStart nat bool
  | AwaitConnect bool
  | AwaitLogEnd
  | AwaitReconnect bool

text \<open>
  The React state and the refs of the component, with what surrounds it: the time
  \<open>Date.now()\<close>, the shop's appointments in the store, the calls made to the log
  service, the reconnect timeouts that are armed (each with the \<open>isActive\<close> its callback
  reads), the appointments handed to \<open>onBook\<close>, the client (kept as the \<open>isActive\<close> that
  the \<open>handleLiveEvent\<close> given to its constructor reads), and the awaits that are
  pending.
\<close>

record VoiceAgent =
  isActive :: bool
  agentStatus :: agent_status
  agentError :: "agent_error option"
  conversationLogId :: "nat option"
  bookingCreated :: bool
  reconnectAttempts :: nat
  reconnectTimer :: "nat option"
  isUserDisconnecting :: bool
  appointmentsCache :: "string \<Rightarrow> (Appointment list \<times> nat) option"
  appointmentsRangeCache :: "(Appointment list \<times> nat) option"
  lastBookingRef :: "(string \<times> nat) option"
  dateNow :: nat
  firestore :: "Appointment list"
  logService :: "log_call list"
  armedReconnects :: "(nat \<times> bool) list"
  nextHandle :: nat
  onBookCalls :: "Appointment list"
  clientRef :: "bool option"
  awaited :: "continuation list"

subsection \<open>Tool calls\<close>

text \<open>
  The arguments of a tool call as the tool declarations type them: the required ones
  are strings, the barber of \<open>find_earliest_slot\<close> is optional.
\<close>

record tool_args =
  arg_barberId :: "string option"
  arg_serviceId :: string
  arg_date :: string
  arg_time :: string
  arg_customerName :: string
  arg_customerPhone :: string
  arg_appointmentId :: string
  arg_newDate :: string
  arg_newTime :: string

record function_call =
  call_id :: string
  call_name :: string
  call_args :: tool_args

text \<open>
  The shapes of a tool result: a catalogue as (id, name) pairs; \<open>{items: [], message}\<close>;
  \<open>{error}\<close>; \<open>{message}\<close>; a list of slots; the earliest slot with the barber's name;
  \<open>{success: false, error}\<close>; \<open>{success: true, appointmentId, message}\<close>, where the id
  may be missing; and the digest of a customer's appointments.
\<close>

datatype tool_result =
    Catalogue "(string \<times> string) list"
  | EmptyItems string
  | ErrorOnly string
  | MessageOnly string
  | SlotList "string list"
  | EarliestFound slot_ref "string option"
  | Failure string
  | Success "string option" string
  | Digest "Appointment list"

record tool_response =
  resp_id :: string
  resp_name :: string
  resp_result :: tool_result

definition getCachedAppointmentsForDate ::
  "env \<Rightarrow> string \<Rightarrow> string \<Rightarrow> VoiceAgent \<Rightarrow> (string + Appointment list) \<times> VoiceAgent" where
  "getCachedAppointmentsForDate e bId d s =
     (let key = bId @ '':'' @ d;
          load = (let (r, waited) = withTimeout (loadAppointmentsForDateRange e (firestore s) bId d)
                                      TOOL_TIMEOUT_MS;
                      s1 = s\<lparr>dateNow := dateNow s + waited\<rparr>
                  in case r of
                       Inl err \<Rightarrow> (Inl err, s1)
                     | Inr data \<Rightarrow>
                         (Inr data,
                          s1\<lparr>appointmentsCache :=
                               (appointmentsCache s1)(key \<mapsto> (data, dateNow s1))\<rparr>))
      in case appointmentsCache s key of
           None \<Rightarrow> load
         | Some (data, ts) \<Rightarrow>
             if int (dateNow s) - int ts < APPOINTMENTS_CACHE_TTL_MS then (Inr data, s)
             else load)"

definition getCachedAppointmentsRange ::
  "env \<Rightarrow> VoiceAgent \<Rightarrow> (string + Appointment list) \<times> VoiceAgent" where
  "getCachedAppointmentsRange e s =
     (let load = (let (r, waited) = withTimeout (getAppointmentsRange e (firestore s))
                                      TOOL_TIMEOUT_MS;
                      s1 = s\<lparr>dateNow := dateNow s + waited\<rparr>
                  in case r of
                       Inl err \<Rightarrow> (Inl err, s1)
                     | Inr data \<Rightarrow>
                         (Inr data, s1\<lparr>appointmentsRangeCache := Some (data, dateNow s1)\<rparr>))
      in case appointmentsRangeCache s of
           None \<Rightarrow> load
         | Some (data, ts) \<Rightarrow>
             if int (dateNow s) - int ts < RANGE_CACHE_TTL_MS then (Inr data, s) else load)"

text \<open>
  The lead time of \<open>get_available_slots\<close>: \<open>setHours\<close> puts the slot's hours and minutes
  on the browser's local day, so the slot's start in milliseconds after local midnight,
  minus the local time of day now, must be more than 45 minutes. A slot whose parts
  are not numbers gives NaN and is dropped.
\<close>

definition slotStartMs :: "string \<Rightarrow> nat option" where
  "slotStartMs slot =
     (case map Number (split_on CHR '':'' slot) of
        Some hrs # Some mins # rest \<Rightarrow> Some ((hrs * 60 + mins) * 60000)
      | _ \<Rightarrow> None)"

definition afterLeadTime :: "env \<Rightarrow> string \<Rightarrow> bool" where
  "afterLeadTime e slot =
     (case slotStartMs slot of
        None \<Rightarrow> False
      | Some start \<Rightarrow> int start - int (msOfDay (calendar e)) > 45 * 60000)"

definition knownBarber :: "AppState \<Rightarrow> string \<Rightarrow> bool" where
  "knownBarber st bId = list_ex (\<lambda>b. barber_id b = bId) (barbers st)"

definition knownService :: "AppState \<Rightarrow> string \<Rightarrow> bool" where
  "knownService st sId = list_ex (\<lambda>sv. service_id sv = sId) (services st)"

definition getAvailableSlots ::
  "env \<Rightarrow> AppState \<Rightarrow> tool_args \<Rightarrow> VoiceAgent \<Rightarrow> (string + tool_result) \<times> VoiceAgent" where
  "getAvailableSlots e st args s =
     (if barbers st = [] then (Inr (ErrorOnly MSG_NO_BARBERS), s)
      else if \<not> (case arg_barberId args of None \<Rightarrow> False | Some bId \<Rightarrow> knownBarber st bId)
      then (Inr (ErrorOnly MSG_NO_SUCH_BARBER), s)
      else
        let bId = the (arg_barberId args);
            (r, s1) = getCachedAppointmentsForDate e bId (arg_date args) s
        in (case r of
              Inl err \<Rightarrow> (Inl err, s1)
            | Inr appointments \<Rightarrow>
                (let slots = getFreeSlots (newDate e) (arg_date args) bId appointments
                 in (Inr (SlotList (if arg_date args = todaySofia (calendar e)
                                    then filter (afterLeadTime e) slots else slots)), s1))))"

definition findEarliestSlot ::
  "env \<Rightarrow> AppState \<Rightarrow> tool_args \<Rightarrow> VoiceAgent \<Rightarrow> (string + tool_result) \<times> VoiceAgent" where
  "findEarliestSlot e st args s =
     (if barbers st = [] then (Inr (MessageOnly MSG_NO_BARBERS), s)
      else if (case arg_barberId args of None \<Rightarrow> False
               | Some bId \<Rightarrow> bId \<noteq> [] \<and> \<not> knownBarber st bId)
      then (Inr (MessageOnly MSG_NO_SUCH_BARBER), s)
      else case getCachedAppointmentsRange e s of
        (Inl err, s1) \<Rightarrow> (Inl err, s1)
      | (Inr allCheckAppointments, s1) \<Rightarrow>
          (case findNextAvailableSlot (newDate e) allCheckAppointments (map barber_id (barbers st))
                  (arg_barberId args) (calendar e) of
             None \<Rightarrow> (Inr (MessageOnly MSG_NOTHING_SOON), s1)
           | Some foundSlot \<Rightarrow>
               (Inr (EarliestFound foundSlot
                       (map_option barber_nameBg
                          (List.find (\<lambda>b. barber_id b = slot_barberId foundSlot) (barbers st)))),
                s1)))"

definition bookingKey :: "string \<Rightarrow> tool_args \<Rightarrow> string \<Rightarrow> string" where
  "bookingKey bId args phoneNo =
     bId @ ''|'' @ arg_serviceId args @ ''|'' @ arg_date args @ ''|'' @ arg_time args
       @ ''|'' @ phoneNo"

definition MSG_ALREADY_BOOKED :: "string \<Rightarrow> string" where
  "MSG_ALREADY_BOOKED phoneNo =
     ''Chasat veche e zapisan. Potvarzhdavam telefon: '' @ formatPhoneDigits phoneNo @ ''.''"

definition MSG_BOOKED :: "tool_args \<Rightarrow> string \<Rightarrow> string" where
  "MSG_BOOKED args phoneNo =
     ''Gotovo! Chasat e zapisan za '' @ arg_date args @ '' v '' @ arg_time args
       @ ''. Potvarzhdavam telefon: '' @ formatPhoneDigits phoneNo @ ''.''"

definition MSG_RESCHEDULED :: "tool_args \<Rightarrow> string" where
  "MSG_RESCHEDULED args =
     ''Gotovo! Chasat e premesten na '' @ arg_newDate args @ '' v '' @ arg_newTime args @ ''.''"

definition isDuplicate :: "VoiceAgent \<Rightarrow> string \<Rightarrow> bool" where
  "isDuplicate s key =
     (case lastBookingRef s of
        None \<Rightarrow> False
      | Some (k, ts) \<Rightarrow> k = key \<and> int (dateNow s) - int ts < 10000)"

text \<open>
  \<open>book_appointment\<close> after the checks of the catalogue, the barber and the service:
  the slot is checked again, the phone is normalised, a repeated request is answered
  without a write, and otherwise the appointment is created.
\<close>

definition writeBooking ::
  "env \<Rightarrow> string \<Rightarrow> tool_args \<Rightarrow> string \<Rightarrow> VoiceAgent \<Rightarrow> (string + tool_result) \<times> VoiceAgent" where
  "writeBooking e finalBarberId args phoneNo s1 =
     (let dateTime = newDate e (arg_date args @ ''T'' @ arg_time args)
      in if dateTime = InvalidDate then (Inl MSG_INVALID_TIME_VALUE, s1)
         else
           let (p, store') = createAppointment e (firestore s1)
                  \<lparr>apt_id = [], serviceId = arg_serviceId args,
                   barberId = finalBarberId, date = dateTime,
                   customerName = arg_customerName args,
                   customerEmail = ''+'' @ phoneNo, status = Pending\<rparr>;
               (r, waited) = withTimeout p TOOL_TIMEOUT_MS;
               s2 = s1\<lparr>firestore := store', dateNow := dateNow s1 + waited\<rparr>
           in (case r of
                 Inl err \<Rightarrow> (Inl err, s2)
               | Inr newAppt \<Rightarrow>
                   (Inr (Success (Some (apt_id newAppt)) (MSG_BOOKED args phoneNo)),
                    s2\<lparr>onBookCalls := onBookCalls s2 @ [newAppt],
                       lastBookingRef :=
                         Some (bookingKey finalBarberId args phoneNo, dateNow s2)\<rparr>)))"

definition bookChecked ::
  "env \<Rightarrow> string \<Rightarrow> tool_args \<Rightarrow> VoiceAgent \<Rightarrow> (string + tool_result) \<times> VoiceAgent" where
  "bookChecked e finalBarberId args s =
     (let (c, s1) = getCachedAppointmentsForDate e finalBarberId (arg_date args) s
      in (case c of
            Inl err \<Rightarrow> (Inl err, s1)
          | Inr checkAppts \<Rightarrow>
              if arg_time args \<notin> set (getFreeSlots (newDate e) (arg_date args) finalBarberId checkAppts)
              then (Inr (Failure MSG_SLOT_TAKEN), s1)
              else
                let phoneNo = normalizePhone (arg_customerPhone args)
                in if isDuplicate s1 (bookingKey finalBarberId args phoneNo)
                   then (Inr (Success (Some ''duplicate'') (MSG_ALREADY_BOOKED phoneNo)), s1)
                   else writeBooking e finalBarberId args phoneNo s1))"

definition bookAppointment ::
  "env \<Rightarrow> AppState \<Rightarrow> tool_args \<Rightarrow> VoiceAgent \<Rightarrow> (string + tool_result) \<times> VoiceAgent" where
  "bookAppointment e st args s =
     (if barbers st = [] \<or> services st = [] then (Inr (Failure MSG_NO_CATALOG), s)
      else if (case arg_barberId args of
                 None \<Rightarrow> True
               | Some finalBarberId \<Rightarrow> finalBarberId = [] \<or> \<not> knownBarber st finalBarberId)
      then (Inr (Failure MSG_INVALID_BARBER), s)
      else if \<not> knownService st (arg_serviceId args)
      then (Inr (Failure MSG_INVALID_SERVICE), s)
      else bookChecked e (the (arg_barberId args)) args s)"

definition getCustomerAppointmentsTool ::
  "env \<Rightarrow> tool_args \<Rightarrow> VoiceAgent \<Rightarrow> (string + tool_result) \<times> VoiceAgent" where
  "getCustomerAppointmentsTool e args s =
     (let (r, waited) = withTimeout (getCustomerAppointments e (firestore s)
                                       (arg_customerPhone args)) TOOL_TIMEOUT_MS;
          s1 = s\<lparr>dateNow := dateNow s + waited\<rparr>
      in case r of
           Inl err \<Rightarrow> (Inl err, s1)
         | Inr customerAppts \<Rightarrow>
             (Inr (if customerAppts = [] then MessageOnly MSG_NOT_FOUND
                   else Digest customerAppts), s1))"

definition rescheduleTool ::
  "env \<Rightarrow> tool_args \<Rightarrow> VoiceAgent \<Rightarrow> (string + tool_result) \<times> VoiceAgent" where
  "rescheduleTool e args s =
     (if arg_appointmentId args = [] \<or> arg_newDate args = [] \<or> arg_newTime args = []
      then (Inr (ErrorOnly MSG_MISSING_DATA), s)
      else
        let (p, store') = rescheduleAppointment e (firestore s) (arg_appointmentId args)
                            (arg_newDate args) (arg_newTime args);
            (r, waited) = withTimeout p TOOL_TIMEOUT_MS;
            s1 = s\<lparr>firestore := store', dateNow := dateNow s + waited\<rparr>
        in case r of
             Inl err \<Rightarrow> (Inl err, s1)
           | Inr u \<Rightarrow> (Inr (Success None (MSG_RESCHEDULED args)), s1))"

definition cancelTool ::
  "env \<Rightarrow> tool_args \<Rightarrow> VoiceAgent \<Rightarrow> (string + tool_result) \<times> VoiceAgent" where
  "cancelTool e args s =
     (let (p, store') = cancelAppointment e (firestore s) (arg_appointmentId args);
          (r, waited) = withTimeout p TOOL_TIMEOUT_MS;
          s1 = s\<lparr>firestore := store', dateNow := dateNow s + waited\<rparr>
      in case r of
           Inl err \<Rightarrow> (Inl err, s1)
         | Inr u \<Rightarrow> (Inr (Success None MSG_CANCELLED), s1))"

text \<open>
  The \<open>switch\<close> on the tool's name, inside the \<open>try\<close>: the left summand is the message
  of an exception thrown on the way.
\<close>

definition runTool ::
  "env \<Rightarrow> AppState \<Rightarrow> function_call \<Rightarrow> VoiceAgent \<Rightarrow> (string + tool_result) \<times> VoiceAgent" where
  "runTool e st call s =
     (if call_name call = ''get_barbers'' then
        (if barbers st = [] then (Inr (EmptyItems MSG_NO_BARBERS_ADDED), s)
         else (Inr (Catalogue (map (\<lambda>b. (barber_id b, barber_nameBg b)) (barbers st))), s))
      else if call_name call = ''get_services'' then
        (if services st = [] then (Inr (EmptyItems MSG_NO_SERVICES_ADDED), s)
         else (Inr (Catalogue (map (\<lambda>sv. (service_id sv, service_nameBg sv)) (services st))), s))
      else if call_name call = ''get_available_slots'' then getAvailableSlots e st (call_args call) s
      else if call_name call = ''find_earliest_slot'' then findEarliestSlot e st (call_args call) s
      else if call_name call = ''book_appointment'' then bookAppointment e st (call_args call) s
      else if call_name call = ''get_customer_appointments''
        then getCustomerAppointmentsTool e (call_args call) s
      else if call_name call = ''reschedule_appointment'' then rescheduleTool e (call_args call) s
      else if call_name call = ''cancel_appointment'' then cancelTool e (call_args call) s
      else (Inr (ErrorOnly (''Unknown tool: '' @ call_name call)), s))"

text \<open>
  The \<open>catch\<close> and the response built for one call, from what the \<open>try\<close> block
  returned or threw.
\<close>

definition caught :: "string \<Rightarrow> tool_result" where
  "caught message =
     ErrorOnly (if message = ''timeout'' then MSG_SLOW
                else if message \<noteq> [] then message else MSG_GENERIC)"

definition respond :: "function_call \<Rightarrow> string + tool_result \<Rightarrow> tool_response" where
  "respond call outcome =
     \<lparr>resp_id = call_id call, resp_name = call_name call,
      resp_result = (case outcome of Inl message \<Rightarrow> caught message | Inr result \<Rightarrow> result)\<rparr>"

text \<open>One call from its start to its response, while nothing else happens.\<close>

definition answerCall ::
  "env \<Rightarrow> AppState \<Rightarrow> function_call \<Rightarrow> VoiceAgent \<Rightarrow> tool_response \<times> VoiceAgent" where
  "answerCall e st call s =
     (let (r, s1) = runTool e st call s
      in (respond call r, s1))"


fun isSuccess :: "tool_result \<Rightarrow> bool" where
  "isSuccess (Success appointmentId message) = True"
| "isSuccess _ = False"

definition meaningfulAction :: "string \<Rightarrow> bool" where
  "meaningfulAction toolName =
     (toolName = ''book_appointment'' \<or> toolName = ''reschedule_appointment''
      \<or> toolName = ''cancel_appointment'')"

text \<open>The response looked up for a call is the first one that carries the call's id.\<close>

definition succeeded :: "tool_response list \<Rightarrow> function_call \<Rightarrow> bool" where
  "succeeded responses call =
     (case List.find (\<lambda>r. resp_id r = call_id call) responses of
        None \<Rightarrow> False
      | Some response \<Rightarrow> isSuccess (resp_result response))"

definition logToolCall :: "nat \<Rightarrow> tool_response list \<Rightarrow> VoiceAgent \<Rightarrow> function_call \<Rightarrow> VoiceAgent" where
  "logToolCall logId responses s call =
     (let s1 = s\<lparr>logService := logService s @ [ToolCallLogged logId (call_name call)]\<rparr>
      in if succeeded responses call \<and> meaningfulAction (call_name call)
         then s1\<lparr>bookingCreated := True\<rparr> else s1)"

text \<open>
  What \<open>handleToolCalls\<close> does once \<open>Promise.all\<close> has given the responses: it logs the
  calls and sets the booking flag, in one step.
\<close>

definition recordResponses ::
  "tool_response list \<Rightarrow> function_call list \<Rightarrow> VoiceAgent \<Rightarrow> VoiceAgent" where
  "recordResponses responses calls s =
     (case conversationLogId s of
        None \<Rightarrow> s
      | Some logId \<Rightarrow> foldl (logToolCall logId responses) s calls)"

text \<open>\<open>handleToolCalls\<close> on a batch of one call, while nothing else happens.\<close>

definition handleToolCall ::
  "env \<Rightarrow> AppState \<Rightarrow> function_call \<Rightarrow> VoiceAgent \<Rightarrow> tool_response \<times> VoiceAgent" where
  "handleToolCall e st call s =
     (let (response, s1) = answerCall e st call s
      in (response, recordResponses [response] [call] s1))"

subsection \<open>The session\<close>

definition clearReconnectTimer :: "VoiceAgent \<Rightarrow> VoiceAgent" where
  "clearReconnectTimer s =
     (case reconnectTimer s of
        None \<Rightarrow> s
      | Some h \<Rightarrow> s\<lparr>armedReconnects := filter (\<lambda>t. fst t \<noteq> h) (armedReconnects s),
                     reconnectTimer := None\<rparr>)"

text \<open>
  \<open>scheduleReconnect\<close> reads the state \<open>isActive\<close> of the render in which it was created
  (here \<open>seen\<close>) and the refs as they are now.
\<close>

definition scheduleReconnect :: "bool \<Rightarrow> VoiceAgent \<Rightarrow> VoiceAgent" where
  "scheduleReconnect seen s =
     (if \<not> seen \<or> isUserDisconnecting s then s
      else if reconnectAttempts s \<ge> MAX_RECONNECTS
      then s\<lparr>agentError := Some ConnectionUnstable, agentStatus := Idle, isActive := False\<rparr>
      else
        let s1 = clearReconnectTimer s;
            attempt = reconnectAttempts s1 + 1
        in s1\<lparr>reconnectAttempts := attempt,
              agentStatus := Connecting,
              agentError := Some (Reconnecting attempt MAX_RECONNECTS),
              armedReconnects := armedReconnects s1 @ [(nextHandle s1, seen)],
              reconnectTimer := Some (nextHandle s1),
              nextHandle := Suc (nextHandle s1)\<rparr>)"

text \<open>
  The callback of a reconnect timeout builds a new client, with the \<open>handleLiveEvent\<close>
  of its own render, and waits for \<open>connect\<close>.
\<close>

definition reconnectTimerFires :: "nat \<Rightarrow> VoiceAgent \<Rightarrow> VoiceAgent" where
  "reconnectTimerFires h s =
     (case List.find (\<lambda>t. fst t = h) (armedReconnects s) of
        None \<Rightarrow> s
      | Some (h', seen) \<Rightarrow>
          s\<lparr>armedReconnects := filter (\<lambda>t. fst t \<noteq> h) (armedReconnects s),
            clientRef := Some seen,
            awaited := awaited s @ [AwaitReconnect seen]\<rparr>)"

text \<open>
  \<open>handleToggle\<close> from the press of the button to its first \<open>await\<close>, or to its end
  when the session is stopped with no log open. The button runs the \<open>handleToggle\<close> of
  the latest render, which reads the state \<open>isActive\<close> as it is.
\<close>

definition sessionStopped :: "VoiceAgent \<Rightarrow> VoiceAgent" where
  "sessionStopped s =
     s\<lparr>isActive := False, agentStatus := Idle, agentError := None,
       isUserDisconnecting := False\<rparr>"

definition handleToggle :: "VoiceAgent \<Rightarrow> VoiceAgent" where
  "handleToggle s =
     (let seen = isActive s
      in if seen then
           let s1 = clearReconnectTimer (s\<lparr>isUserDisconnecting := True\<rparr>)
           in (case conversationLogId s1 of
                 None \<Rightarrow> sessionStopped s1
               | Some logId \<Rightarrow>
                   s1\<lparr>logService := logService s1 @
                         [EndLog logId
                            (if bookingCreated s1 then OutcomeCompleted else OutcomeAbandoned)
                            (bookingCreated s1)],
                      awaited := awaited s1 @ [AwaitLogEnd]\<rparr>)
         else
           let s1 = s\<lparr>agentError := None, agentStatus := Connecting, reconnectAttempts := 0\<rparr>
           in s1\<lparr>logService := logService s1 @ [StartLog (dateNow s1)],
                 awaited := awaited s1 @ [AwaitLogStart (dateNow s1) seen]\<rparr>)"

text \<open>
  An asynchronous function goes on when the promise it waits for settles; \<open>ok\<close> tells
  whether the promise is fulfilled. \<open>connect\<close> and \<open>endConversationLog\<close> catch every
  error themselves, so their promises are never rejected and the \<open>catch\<close> around
  \<open>connect\<close> is never entered.
\<close>

fun resume :: "continuation \<Rightarrow> bool \<Rightarrow> VoiceAgent \<Rightarrow> VoiceAgent" where
  "resume (AwaitLogStart logId seen) ok s =
     (let s1 = (if ok then s\<lparr>conversationLogId := Some logId, bookingCreated := False\<rparr> else s)
      in s1\<lparr>clientRef := Some seen, awaited := awaited s1 @ [AwaitConnect seen]\<rparr>)"
| "resume (AwaitConnect seen) ok s = s\<lparr>isActive := True\<rparr>"
| "resume AwaitLogEnd ok s = sessionStopped (s\<lparr>conversationLogId := None\<rparr>)"
| "resume (AwaitReconnect seen) ok s = s\<lparr>agentError := None\<rparr>"

definition settles :: "nat \<Rightarrow> bool \<Rightarrow> VoiceAgent \<Rightarrow> VoiceAgent" where
  "settles i ok s =
     (if i < length (awaited s)
      then resume (awaited s ! i) ok
             (s\<lparr>awaited := take i (awaited s) @ drop (Suc i) (awaited s)\<rparr>)
      else s)"

text \<open>
  The events of the client that change the session, as the \<open>handleLiveEvent\<close> given to
  the client handles them; a \<open>toolCall\<close> event starts \<open>handleToolCalls\<close>.
\<close>

datatype live_event = SetupComplete | Interrupted | ErrorEvent | CloseEvent

fun handleLiveEvent :: "bool \<Rightarrow> VoiceAgent \<Rightarrow> live_event \<Rightarrow> VoiceAgent" where
  "handleLiveEvent seen s SetupComplete =
     s\<lparr>agentStatus := Listening, reconnectAttempts := 0, agentError := None\<rparr>"
| "handleLiveEvent seen s Interrupted = s\<lparr>agentStatus := Listening\<rparr>"
| "handleLiveEvent seen s ErrorEvent = scheduleReconnect seen s"
| "handleLiveEvent seen s CloseEvent = scheduleReconnect seen s"

definition clientEmits :: "live_event \<Rightarrow> VoiceAgent \<Rightarrow> VoiceAgent" where
  "clientEmits ev s =
     (case clientRef s of
        None \<Rightarrow> s
      | Some seen \<Rightarrow> handleLiveEvent seen s ev)"

text \<open>
  What happens in the component, one event at a time: the user presses the button, an
  awaited promise settles, the client emits an event, a reconnect timeout fires, a
  batch of one tool call runs from its start to its response, or the batch of some
  calls ends with some responses.
\<close>

datatype session_event =
    Press
  | Settles nat bool
  | Emits live_event
  | TimerFires nat
  | ToolCalled env function_call
  | BatchEnds "tool_response list" "function_call list"

fun sessionStep :: "AppState \<Rightarrow> VoiceAgent \<Rightarrow> session_event \<Rightarrow> VoiceAgent" where
  "sessionStep st s Press = handleToggle s"
| "sessionStep st s (Settles i ok) = settles i ok s"
| "sessionStep st s (Emits ev) = clientEmits ev s"
| "sessionStep st s (TimerFires h) = reconnectTimerFires h s"
| "sessionStep st s (ToolCalled e call) = snd (handleToolCall e st call s)"
| "sessionStep st s (BatchEnds responses calls) = recordResponses responses calls s"

definition runSession :: "AppState \<Rightarrow> session_event list \<Rightarrow> VoiceAgent \<Rightarrow> VoiceAgent" where
  "runSession st evs s = foldl (sessionStep st) s evs"


text \<open>
  Whether a response of a batch reports a booking, a rescheduling or a cancellation
  that succeeded, and whether one of some batches does.
\<close>

definition actionDone :: "tool_response list \<Rightarrow> function_call list \<Rightarrow> bool" where
  "actionDone responses calls =
     list_ex (\<lambda>call. succeeded responses call \<and> meaningfulAction (call_name call)) calls"




fun isEndLog :: "log_call \<Rightarrow> bool" where
  "isEndLog (EndLog logId outcome flag) = True"
| "isEndLog _ = False"

definition endLogs :: "VoiceAgent \<Rightarrow> log_call list" where
  "endLogs s = filter isEndLog (logService s)"


text \<open>
  Every \<open>handleLiveEvent\<close> and \<open>scheduleReconnect\<close> that is held by the client, by a
  pending \<open>await\<close> or by a timeout reads an \<open>isActive\<close> that is false; no reconnect is
  armed and the error shown is not the terminal one.
\<close>

fun staleAwait :: "continuation \<Rightarrow> bool" where
  "staleAwait (AwaitLogStart logId seen) = (\<not> seen)"
| "staleAwait (AwaitConnect seen) = (\<not> seen)"
| "staleAwait AwaitLogEnd = True"
| "staleAwait (AwaitReconnect seen) = (\<not> seen)"

definition staleHandlers :: "VoiceAgent \<Rightarrow> bool" where
  "staleHandlers s =
     (clientRef s \<noteq> Some True \<and> list_all staleAwait (awaited s)
      \<and> armedReconnects s = [] \<and> agentError s \<noteq> Some ConnectionUnstable)"


text \<open>
  The part of the state that belongs to the session: the tool handlers leave it as it
  is.
\<close>

record session_part =
  sp_isActive :: bool
  sp_agentStatus :: agent_status
  sp_agentError :: "agent_error option"
  sp_conversationLogId :: "nat option"
  sp_bookingCreated :: bool
  sp_reconnectAttempts :: nat
  sp_reconnectTimer :: "nat option"
  sp_isUserDisconnecting :: bool
  sp_logService :: "log_call list"
  sp_armedReconnects :: "(nat \<times> bool) list"
  sp_nextHandle :: nat
  sp_clientRef :: "bool option"
  sp_awaited :: "continuation list"

definition sessionPart :: "VoiceAgent \<Rightarrow> session_part" where
  "sessionPart s =
     \<lparr>sp_isActive = isActive s, sp_agentStatus = agentStatus s, sp_agentError = agentError s,
      sp_conversationLogId = conversationLogId s, sp_bookingCreated = bookingCreated s,
      sp_reconnectAttempts = reconnectAttempts s, sp_reconnectTimer = reconnectTimer s,
      sp_isUserDisconnecting = isUserDisconnecting s, sp_logService = logService s,
      sp_armedReconnects = armedReconnects s, sp_nextHandle = nextHandle s,
      sp_clientRef = clientRef s, sp_awaited = awaited s\<rparr>"





subsection \<open>Example data\<close>

text \<open>
  A shop with one barber and one service on 19 March 2026 at 09:00, seen from a browser
  in Sofia, a network that answers reads in 200 ms and writes in 300 ms, and an agent
  that has just been mounted.
\<close>

definition shop :: AppState where
  "shop = \<lparr>barbers = [\<lparr>barber_id = ''b1'', barber_nameBg = ''Nalby''\<rparr>],
            services = [\<lparr>service_id = ''s1'', service_nameBg = ''Podstrigvane''\<rparr>]\<rparr>"

definition morning :: clock where
  "morning = \<lparr>todaySofia = ''2026-03-19'', hourSofia = 9, msOfDay = 32400000,
               dayAhead = (\<lambda>i. if i = 0 then ''2026-03-19'' else ''2026-03-20'')\<rparr>"

definition fastNet :: env where
  "fastNet = \<lparr>calendar = morning, newDate = sofiaDate, readNet = Answers 200,
               writeNet = Answers 300, newDocId = ''doc1'', sinceWeekAgo = (\<lambda>d. True),
               withinThirtyDays = (\<lambda>d. True)\<rparr>"

definition mounted :: VoiceAgent where
  "mounted = \<lparr>isActive = False, agentStatus = Idle, agentError = None,
               conversationLogId = None, bookingCreated = False, reconnectAttempts = 0,
               reconnectTimer = None, isUserDisconnecting = False,
               appointmentsCache = Map.empty, appointmentsRangeCache = None,
               lastBookingRef = None, dateNow = 0, firestore = [], logService = [],
               armedReconnects = [], nextHandle = 1, onBookCalls = [], clientRef = None,
               awaited = []\<rparr>"

definition noArgs :: tool_args where
  "noArgs = \<lparr>arg_barberId = None, arg_serviceId = [], arg_date = [], arg_time = [],
              arg_customerName = [], arg_customerPhone = [], arg_appointmentId = [],
              arg_newDate = [], arg_newTime = []\<rparr>"

definition askSlots :: function_call where
  "askSlots = \<lparr>call_id = ''c1'', call_name = ''get_available_slots'',
                call_args = noArgs\<lparr>arg_barberId := Some ''b1'', arg_date := ''2026-03-20''\<rparr>\<rparr>"

definition bookIvan :: function_call where
  "bookIvan = \<lparr>call_id = ''c2'', call_name = ''book_appointment'',
                call_args = noArgs\<lparr>arg_barberId := Some ''b1'', arg_serviceId := ''s1'',
                  arg_date := ''2026-03-20'', arg_time := ''10:00'',
                  arg_customerName := ''Ivan'', arg_customerPhone := ''0888 123 456''\<rparr>\<rparr>"

text \<open>What happens around the agent: time passes, and another process books a slot.\<close>

definition timePasses :: "nat \<Rightarrow> VoiceAgent \<Rightarrow> VoiceAgent" where
  "timePasses ms s = s\<lparr>dateNow := dateNow s + ms\<rparr>"

definition bookedElsewhere :: "Appointment \<Rightarrow> VoiceAgent \<Rightarrow> VoiceAgent" where
  "bookedElsewhere appointment s = s\<lparr>firestore := firestore s @ [appointment]\<rparr>"

definition rivalBooking :: Appointment where
  "rivalBooking = \<lparr>apt_id = ''doc0'', serviceId = ''s1'', barberId = ''b1'',
                    date = LocalDate 2026 3 20 10 0, customerName = ''Petar'',
                    customerEmail = ''+359877000111'', status = Pending\<rparr>"

definition ivanAtTen :: Appointment where
  "ivanAtTen = \<lparr>apt_id = ''doc1'', serviceId = ''s1'', barberId = ''b1'',
                 date = LocalDate 2026 3 20 10 0, customerName = ''Ivan'',
                 customerEmail = ''+359888123456'', status = Pending\<rparr>"

definition occupants :: "VoiceAgent \<Rightarrow> string \<Rightarrow> string \<Rightarrow> string \<Rightarrow> Appointment list" where
  "occupants s time d bId =
     filter (\<lambda>a. occupies sofiaDate a time d bId \<and> status a \<noteq> Cancelled) (firestore s)"

text \<open>
  The agent reads the slots of 20 March; five seconds later, after another process
  has taken 10:00, it books 10:00.
\<close>

definition afterSlotsRead :: VoiceAgent where
  "afterSlotsRead = snd (answerCall fastNet shop askSlots mounted)"

definition raceLost :: "tool_response \<times> VoiceAgent" where
  "raceLost =
     answerCall fastNet shop bookIvan
       (timePasses 5000 (bookedElsewhere rivalBooking afterSlotsRead))"

text \<open>
  The agent reads the slots, books 10:00 ten seconds later, and receives the same
  booking request again six seconds after that.
\<close>

definition firstBooking :: "tool_response \<times> VoiceAgent" where
  "firstBooking = answerCall fastNet shop bookIvan (timePasses 10000 afterSlotsRead)"

definition repeatedSoon :: "tool_response \<times> VoiceAgent" where
  "repeatedSoon = answerCall fastNet shop bookIvan (timePasses 6000 (snd firstBooking))"

text \<open>
  The agent books 10:00 at once, and receives the same request again five seconds
  later, or eleven seconds later.
\<close>

definition directBooking :: "tool_response \<times> VoiceAgent" where
  "directBooking = answerCall fastNet shop bookIvan mounted"

definition repeatedAtOnce :: "tool_response \<times> VoiceAgent" where
  "repeatedAtOnce =
     answerCall (fastNet\<lparr>newDocId := ''doc2''\<rparr>) shop bookIvan
       (timePasses 5000 (snd directBooking))"

definition repeatedLate :: "tool_response \<times> VoiceAgent" where
  "repeatedLate =
     answerCall (fastNet\<lparr>newDocId := ''doc2''\<rparr>) shop bookIvan
       (timePasses 11000 (snd directBooking))"

text \<open>A request for today's slots at 09:30.\<close>

definition halfPastNine :: env where
  "halfPastNine = fastNet\<lparr>calendar := morning\<lparr>msOfDay := 34200000\<rparr>\<rparr>"

definition askToday :: function_call where
  "askToday = \<lparr>call_id = ''c3'', call_name = ''get_available_slots'',
                call_args = noArgs\<lparr>arg_barberId := Some ''b1'', arg_date := ''2026-03-19''\<rparr>\<rparr>"

text \<open>
  The same request from a browser in Tokyo, at 01:00 on 20 March there, when it is
  18:00 on 19 March in Sofia.
\<close>

definition tokyoNight :: clock where
  "tokyoNight = \<lparr>todaySofia = ''2026-03-19'', hourSofia = 18, msOfDay = 3600000,
                  dayAhead = (\<lambda>i. if i = 0 then ''2026-03-19'' else ''2026-03-20'')\<rparr>"

definition abroad :: env where
  "abroad = fastNet\<lparr>calendar := tokyoNight, newDate := isoDate 9\<rparr>"

text \<open>
  A session that the user has started and that is running: the log is open, the
  connection is made and the client has reported the end of its setup.
\<close>

definition running :: VoiceAgent where
  "running = runSession shop [Press, Settles 0 True, Settles 0 True, Emits SetupComplete] mounted"













section \<open>Cancelled appointments and the slot grid\<close>

lemma isSlotAvailable_iff:
  "isSlotAvailable D time d bId appts =
     (d = [] \<or> bId = [] \<or> (\<forall>a \<in> set appts. occupies D a time d bId \<longrightarrow> status a = Cancelled))"
  by (auto simp: isSlotAvailable_def occupies_def Let_def list_ex_iff)

lemma isSlotAvailable_drop_cancelled:
  "isSlotAvailable D time d bId (filter notCancelled appts) = isSlotAvailable D time d bId appts"
  by (auto simp: isSlotAvailable_iff notCancelled_def)

lemma getFreeSlots_drop_cancelled:
  "getFreeSlots D d bId (filter notCancelled appts) = getFreeSlots D d bId appts"
  by (simp add: getFreeSlots_def isSlotAvailable_drop_cancelled)

lemma findSlotForBarber_drop_cancelled:
  "findSlotForBarber D bId (filter notCancelled appts) clk = findSlotForBarber D bId appts clk"
  by (simp add: findSlotForBarber_def isSlotAvailable_drop_cancelled)

lemma findNextAvailableSlot_drop_cancelled:
  "findNextAvailableSlot D (filter notCancelled appts) barberIds bId clk
     = findNextAvailableSlot D appts barberIds bId clk"
  by (simp add: findNextAvailableSlot_def findSlotForBarber_drop_cancelled)

lemma candidate_listed:
  assumes "j < 30" and "time \<in> set TIME_SLOTS"
  shows "(dayAhead clk j, time) \<in> set (candidates clk)"
  using assms unfolding candidates_def by auto

lemma findSlotForBarber_finds:
  assumes "(dateStr, time) \<in> set (candidates clk)"
    and "\<not> skipped clk dateStr time"
    and "isSlotAvailable D time dateStr bId appts"
  shows "\<exists>r. findSlotForBarber D bId appts clk = Some r
             \<and> slot_barberId r = bId
             \<and> (slot_date r, slot_time r) \<in> set (candidates clk)
             \<and> \<not> skipped clk (slot_date r) (slot_time r)
             \<and> isSlotAvailable D (slot_time r) (slot_date r) bId appts"
proof -
  let ?P = "\<lambda>(dateStr, slot).
              \<not> skipped clk dateStr slot \<and> isSlotAvailable D slot dateStr bId appts"
  from assms have "\<exists>x \<in> set (candidates clk). ?P x"
    by (intro bexI [of _ "(dateStr, time)"]) simp_all
  then obtain x where f: "List.find ?P (candidates clk) = Some x"
    by (cases "List.find ?P (candidates clk)") (auto simp: find_None_iff)
  obtain d' t' where x: "x = (d', t')"
    by (cases x)
  from f have "?P x" and "x \<in> set (candidates clk)"
    by (auto simp: find_Some_iff intro: nth_mem)
  with x f show ?thesis
    by (simp add: findSlotForBarber_def)
qed

text \<open>
  Claim C10. A cancelled appointment never occupies a slot, whatever \<open>Date\<close> the engine
  builds from a string. When every appointment that matches a (time, date, barber)
  triple is cancelled, \<open>isSlotAvailable\<close> is true and a grid slot is among the free
  slots; \<open>getFreeSlots\<close> and \<open>findNextAvailableSlot\<close> give the same answer as on the list
  without its cancelled appointments; when a slot of the grid on one of the 30 days is
  not skipped and only cancelled appointments of the barber match it,
  \<open>findNextAvailableSlot\<close> for that barber returns a slot, and the slot it returns is one
  of the grid on those days, not skipped, that only cancelled appointments match (or
  its date string is empty); and \<open>isSlotAvailable\<close> is true whenever the date or the
  barber id is empty.
\<close>

theorem cancelled_never_occupies:
  "((\<forall>a \<in> set appts. occupies D a time d bId \<longrightarrow> status a = Cancelled) \<longrightarrow>
      isSlotAvailable D time d bId appts
      \<and> (time \<in> set TIME_SLOTS \<longrightarrow> time \<in> set (getFreeSlots D d bId appts)))
   \<and> getFreeSlots D d bId appts = getFreeSlots D d bId (filter notCancelled appts)
   \<and> findNextAvailableSlot D appts barberIds optBarber clk
       = findNextAvailableSlot D (filter notCancelled appts) barberIds optBarber clk
   \<and> (bId \<noteq> [] \<and> j < 30 \<and> time \<in> set TIME_SLOTS
        \<and> \<not> skipped clk (dayAhead clk j) time
        \<and> (\<forall>a \<in> set appts. occupies D a time (dayAhead clk j) bId \<longrightarrow> status a = Cancelled)
      \<longrightarrow> (\<exists>r. findNextAvailableSlot D appts barberIds (Some bId) clk = Some r
               \<and> slot_barberId r = bId
               \<and> (slot_date r, slot_time r) \<in> set (candidates clk)
               \<and> \<not> skipped clk (slot_date r) (slot_time r)
               \<and> (slot_date r = []
                  \<or> (\<forall>a \<in> set appts. occupies D a (slot_time r) (slot_date r) bId
                        \<longrightarrow> status a = Cancelled))))
   \<and> isSlotAvailable D time [] bId appts
   \<and> isSlotAvailable D time d [] appts"
proof -
  have avail: "isSlotAvailable D time d bId appts"
    if "\<forall>a \<in> set appts. occupies D a time d bId \<longrightarrow> status a = Cancelled"
    using that by (simp add: isSlotAvailable_iff)
  have free: "time \<in> set (getFreeSlots D d bId appts)"
    if "\<forall>a \<in> set appts. occupies D a time d bId \<longrightarrow> status a = Cancelled"
      and "time \<in> set TIME_SLOTS"
    using that avail by (simp add: getFreeSlots_def)
  have found: "\<exists>r. findNextAvailableSlot D appts barberIds (Some bId) clk = Some r
               \<and> slot_barberId r = bId
               \<and> (slot_date r, slot_time r) \<in> set (candidates clk)
               \<and> \<not> skipped clk (slot_date r) (slot_time r)
               \<and> (slot_date r = []
                  \<or> (\<forall>a \<in> set appts. occupies D a (slot_time r) (slot_date r) bId
                        \<longrightarrow> status a = Cancelled))"
    if b: "bId \<noteq> []" and j: "j < 30" and t: "time \<in> set TIME_SLOTS"
      and s: "\<not> skipped clk (dayAhead clk j) time"
      and c: "\<forall>a \<in> set appts. occupies D a time (dayAhead clk j) bId \<longrightarrow> status a = Cancelled"
  proof -
    from c have "isSlotAvailable D time (dayAhead clk j) bId appts"
      by (simp add: isSlotAvailable_iff)
    from findSlotForBarber_finds [OF candidate_listed [OF j t] s this]
    obtain r where r: "findSlotForBarber D bId appts clk = Some r"
      "slot_barberId r = bId" "(slot_date r, slot_time r) \<in> set (candidates clk)"
      "\<not> skipped clk (slot_date r) (slot_time r)"
      "isSlotAvailable D (slot_time r) (slot_date r) bId appts"
      by blast
    from r(5) b have "slot_date r = []
        \<or> (\<forall>a \<in> set appts. occupies D a (slot_time r) (slot_date r) bId
              \<longrightarrow> status a = Cancelled)"
      by (simp add: isSlotAvailable_iff)
    with r b show ?thesis
      by (simp add: findNextAvailableSlot_def)
  qed
  have empty_date: "isSlotAvailable D time [] bId appts"
    by (simp add: isSlotAvailable_def)
  have empty_barber: "isSlotAvailable D time d [] appts"
    by (simp add: isSlotAvailable_def)
  have same_free: "getFreeSlots D d bId appts = getFreeSlots D d bId (filter notCancelled appts)"
    by (simp add: getFreeSlots_drop_cancelled)
  have same_next: "findNextAvailableSlot D appts barberIds optBarber clk
       = findNextAvailableSlot D (filter notCancelled appts) barberIds optBarber clk"
    by (simp add: findNextAvailableSlot_drop_cancelled)
  show ?thesis
    using avail free found empty_date empty_barber same_free same_next
    by blast
qed

lemma sofia_slot20: "sofiaDate ''2026-03-20T10:00'' = LocalDate 2026 3 20 10 0"
  by (simp add: sofiaDate_def isoDate_def isoDay_def isoTime_def rollOver_def daysInMonth_def
                Number_def digit_def)

lemma eveningBefore_day0: "dayAhead eveningBefore 0 = ''2026-03-19''"
  by (simp add: eveningBefore_def)

lemma eveningBefore_day1: "dayAhead eveningBefore (Suc 0) = ''2026-03-20''"
  by (simp add: eveningBefore_def)

lemma eveningBefore_skips_today:
  "t \<in> set TIME_SLOTS \<Longrightarrow> skipped eveningBefore ''2026-03-19'' t"
  by (auto simp: TIME_SLOTS_def skipped_def eveningBefore_def Number_def digit_def)

lemma eveningBefore_keeps_tomorrow: "\<not> skipped eveningBefore ''2026-03-20'' t"
  by (simp add: skipped_def eveningBefore_def)

lemma candidates_eveningBefore:
  "candidates eveningBefore
     = map (\<lambda>slot. (''2026-03-19'', slot)) TIME_SLOTS
       @ map (\<lambda>slot. (''2026-03-20'', slot)) TIME_SLOTS
       @ concat (map (\<lambda>i. map (\<lambda>slot. (dayAhead eveningBefore i, slot)) TIME_SLOTS) [2..<30])"
proof -
  have "[0..<30] = 0 # Suc 0 # [2..<30]"
    by (simp add: upt_conv_Cons)
  then show ?thesis
    by (simp add: candidates_def eveningBefore_day0 eveningBefore_day1)
qed

lemma find_skips_prefix:
  "(\<And>x. x \<in> set xs \<Longrightarrow> \<not> P x) \<Longrightarrow> List.find P (xs @ ys) = List.find P ys"
  by (induction xs) simp_all

lemma earliest_after_cancellation:
  "findNextAvailableSlot sofiaDate [cancelledIvan] [] (Some ''b1'') eveningBefore
     = Some \<lparr>slot_date = ''2026-03-20'', slot_time = ''10:00'', slot_barberId = ''b1''\<rparr>"
proof -
  let ?P = "\<lambda>(dateStr, slot). \<not> skipped eveningBefore dateStr slot
              \<and> isSlotAvailable sofiaDate slot dateStr ''b1'' [cancelledIvan]"
  have skip: "\<not> ?P x" if "x \<in> set (map (\<lambda>slot. (''2026-03-19'', slot)) TIME_SLOTS)" for x
    using that eveningBefore_skips_today by auto
  have hit: "?P (''2026-03-20'', ''10:00'')"
    by (simp add: eveningBefore_keeps_tomorrow isSlotAvailable_def cancelledIvan_def)
  have "List.find ?P (candidates eveningBefore) = Some (''2026-03-20'', ''10:00'')"
    unfolding candidates_eveningBefore
    using hit by (subst find_skips_prefix [OF skip]) (simp_all add: TIME_SLOTS_def)
  then show ?thesis
    by (simp add: findNextAvailableSlot_def findSlotForBarber_def)
qed

theorem cancelled_never_occupies_witness:
  "status cancelledIvan = Cancelled
   \<and> occupies sofiaDate cancelledIvan ''10:00'' ''2026-03-20'' ''b1''
   \<and> ''10:00'' \<in> set TIME_SLOTS
   \<and> \<not> skipped eveningBefore ''2026-03-20'' ''10:00''
   \<and> isSlotAvailable sofiaDate ''10:00'' ''2026-03-20'' ''b1'' [cancelledIvan]
   \<and> ''10:00'' \<in> set (getFreeSlots sofiaDate ''2026-03-20'' ''b1'' [cancelledIvan])
   \<and> findNextAvailableSlot sofiaDate [cancelledIvan] [] (Some ''b1'') eveningBefore
       = Some \<lparr>slot_date = ''2026-03-20'', slot_time = ''10:00'', slot_barberId = ''b1''\<rparr>"
proof -
  have c: "status cancelledIvan = Cancelled"
    by (simp add: cancelledIvan_def)
  have o: "occupies sofiaDate cancelledIvan ''10:00'' ''2026-03-20'' ''b1''"
    by (simp add: cancelledIvan_def occupies_def sofia_slot20)
  have t: "''10:00'' \<in> set TIME_SLOTS"
    by (simp add: TIME_SLOTS_def)
  have k: "\<not> skipped eveningBefore (dayAhead eveningBefore (Suc 0)) ''10:00''"
    by (simp add: eveningBefore_day1 eveningBefore_keeps_tomorrow)
  have h: "\<forall>a \<in> set [cancelledIvan].
             occupies sofiaDate a ''10:00'' ''2026-03-20'' ''b1'' \<longrightarrow> status a = Cancelled"
    using c by simp
  have h1: "\<forall>a \<in> set [cancelledIvan].
             occupies sofiaDate a ''10:00'' (dayAhead eveningBefore (Suc 0)) ''b1''
               \<longrightarrow> status a = Cancelled"
    using c by simp
  have b: "''b1'' \<noteq> []" and j: "Suc 0 < 30"
    by simp_all
  from cancelled_never_occupies
         [of "[cancelledIvan]" sofiaDate "''10:00''" "''2026-03-20''" "''b1''" "[]" "Some ''b1''"
             eveningBefore "Suc 0"]
       h t
  have a: "isSlotAvailable sofiaDate ''10:00'' ''2026-03-20'' ''b1'' [cancelledIvan]
        \<and> ''10:00'' \<in> set (getFreeSlots sofiaDate ''2026-03-20'' ''b1'' [cancelledIvan])"
    by blast
  from cancelled_never_occupies
         [of "[cancelledIvan]" sofiaDate "''10:00''" "dayAhead eveningBefore (Suc 0)" "''b1''" "[]"
             "Some ''b1''" eveningBefore "Suc 0"]
       h1 t k b j
  have "\<exists>r. findNextAvailableSlot sofiaDate [cancelledIvan] [] (Some ''b1'') eveningBefore = Some r"
    by blast
  with a c o t show ?thesis
    using earliest_after_cancellation eveningBefore_keeps_tomorrow by simp
qed

section \<open>The current step of the booking conversation\<close>

lemma updateBookingData_step:
  "currentStep (updateBookingData u c) = firstUnfilled (bookingData (updateBookingData u c))"
  by (simp add: updateBookingData_def firstUnfilled_def canonicalOrder_def Let_def)

lemma runUpdates_step:
  "\<forall>c' \<in> set (runUpdates c us). currentStep c' = firstUnfilled (bookingData c')"
  by (induction us arbitrary: c) (simp_all add: updateBookingData_step)

lemma spread_fills: "fills upd \<Longrightarrow> truthy prev \<Longrightarrow> truthy (spread prev upd)"
  by (cases upd) (simp_all add: fills_def spread_def)

lemma fill_keeps_rank:
  assumes "fillOnly u" and "currentStep c = firstUnfilled (bookingData c)"
  shows "stepRank (currentStep c) \<le> stepRank (currentStep (updateBookingData u c))"
proof -
  let ?d = "bookingData c"
  let ?d' = "bookingData (updateBookingData u c)"
  have s: "truthy (service ?d) \<Longrightarrow> truthy (service ?d')"
    and t: "truthy (dateTime ?d) \<Longrightarrow> truthy (dateTime ?d')"
    and n: "truthy (name ?d) \<Longrightarrow> truthy (name ?d')"
    and p: "truthy (phone ?d) \<Longrightarrow> truthy (phone ?d')"
    using assms(1) by (simp_all add: fillOnly_def updateBookingData_def Let_def spread_fills)
  have "stepRank (firstUnfilled ?d) \<le> stepRank (firstUnfilled ?d')"
    using s t n p by (auto simp: firstUnfilled_def canonicalOrder_def)
  then show ?thesis
    using assms(2) by (simp add: updateBookingData_step)
qed

lemma runUpdates_monotone:
  assumes "\<forall>u \<in> set us. fillOnly u" and "currentStep c = firstUnfilled (bookingData c)"
  shows "sorted (map (\<lambda>x. stepRank (currentStep x)) (c # runUpdates c us))"
  using assms
proof (induction us arbitrary: c)
  case Nil
  then show ?case by simp
next
  case (Cons u us)
  let ?c' = "updateBookingData u c"
  have tail: "sorted (map (\<lambda>x. stepRank (currentStep x)) (?c' # runUpdates ?c' us))"
    using Cons.IH [of ?c'] Cons.prems(1) by (simp add: updateBookingData_step)
  have head: "stepRank (currentStep c) \<le> stepRank (currentStep ?c')"
    using fill_keeps_rank Cons.prems by simp
  have low: "stepRank (currentStep ?c') \<le> stepRank (currentStep x)"
    if "x \<in> set (runUpdates ?c' us)" for x
    using tail that by simp
  have "stepRank (currentStep c) \<le> stepRank (currentStep x)"
    if "x \<in> set (runUpdates ?c' us)" for x
    using low [OF that] head by (rule order_trans [rotated])
  then show ?case
    using tail head by simp
qed

text \<open>
  Claim C3. After each call of any sequence of \<open>updateBookingData\<close> calls, from any
  starting state, \<open>currentStep\<close> is the first unfilled field in the canonical order
  service, dateTime, name, phone, and confirmation when all four are filled. Hence,
  when the calls fill fields in any order starting from the initial conversation, the
  step never moves back: the ranks of the successive steps are non-decreasing.
\<close>

theorem currentStep_first_unfilled:
  "(\<forall>c' \<in> set (runUpdates c us). currentStep c' = firstUnfilled (bookingData c'))
   \<and> ((\<forall>u \<in> set us. fillOnly u) \<longrightarrow>
        sorted (map (\<lambda>x. stepRank (currentStep x))
                 (initialConversation # runUpdates initialConversation us)))"
proof -
  have "currentStep initialConversation = firstUnfilled (bookingData initialConversation)"
    by (simp add: initialConversation_def INITIAL_BOOKING_DATA_def firstUnfilled_def
        canonicalOrder_def truthy_def)
  then show ?thesis
    using runUpdates_step runUpdates_monotone by blast
qed

theorem currentStep_first_unfilled_witness:
  "fillOnly fillPhone \<and> fillOnly fillService
   \<and> map currentStep (runUpdates initialConversation [fillPhone, fillService])
       = [StepService, StepDatetime]
   \<and> sorted (map (\<lambda>x. stepRank (currentStep x))
         (initialConversation # runUpdates initialConversation [fillPhone, fillService]))"
proof -
  have f: "\<forall>u \<in> set [fillPhone, fillService]. fillOnly u"
    by (simp add: fillOnly_def fills_def truthy_def fillPhone_def fillService_def)
  have s: "map currentStep (runUpdates initialConversation [fillPhone, fillService])
             = [StepService, StepDatetime]"
    by (simp add: truthy_def updateBookingData_def spread_def fillPhone_def fillService_def
        initialConversation_def INITIAL_BOOKING_DATA_def Let_def)
  from currentStep_first_unfilled [of initialConversation "[fillPhone, fillService]"] f
  have m: "sorted (map (\<lambda>x. stepRank (currentStep x))
         (initialConversation # runUpdates initialConversation [fillPhone, fillService]))"
    by blast
  show ?thesis
    using f s m by simp
qed

section \<open>Completion of the booking conversation\<close>

lemma isComplete_after_update:
  "isComplete (updateBookingData u c) = allFilled (bookingData (updateBookingData u c))"
  by (auto simp: isComplete_def allFilled_def updateBookingData_def Let_def truthy_def
      split: option.splits)

text \<open>
  Claim C4, as stated, fails: one call that fills the four fields makes \<open>isComplete\<close>
  true, with no confirmation of any kind in between.
\<close>

theorem completeness_alone_completes:
  "allFilled (bookingData (updateBookingData fillAll initialConversation))
   \<and> isComplete (updateBookingData fillAll initialConversation)"
  by (simp add: isComplete_def allFilled_def updateBookingData_def Let_def truthy_def
      spread_def fillAll_def initialConversation_def INITIAL_BOOKING_DATA_def)

text \<open>
  Claim C4, amended. \<open>isComplete\<close> is true only when all four fields are set and
  \<open>currentStep\<close> is confirmation; and in every state that \<open>updateBookingData\<close> produces,
  \<open>isComplete\<close> is true exactly when the four fields are filled (not \<open>null\<close> and not
  empty), because the call itself moves \<open>currentStep\<close> to confirmation.
\<close>

theorem isComplete_characterised:
  "(isComplete c \<longrightarrow>
      service (bookingData c) \<noteq> None \<and> dateTime (bookingData c) \<noteq> None
      \<and> name (bookingData c) \<noteq> None \<and> phone (bookingData c) \<noteq> None
      \<and> currentStep c = StepConfirmation)
   \<and> isComplete (updateBookingData u c) = allFilled (bookingData (updateBookingData u c))"
  using isComplete_after_update by (simp add: isComplete_def)

theorem isComplete_characterised_witness:
  "isComplete (updateBookingData fillAll initialConversation)
   \<and> currentStep (updateBookingData fillAll initialConversation) = StepConfirmation
   \<and> phone (bookingData (updateBookingData fillAll initialConversation)) = Some ''0888123456''"
proof -
  have c: "isComplete (updateBookingData fillAll initialConversation)"
    by (simp add: isComplete_def updateBookingData_def Let_def truthy_def
        spread_def fillAll_def initialConversation_def INITIAL_BOOKING_DATA_def)
  have p: "phone (bookingData (updateBookingData fillAll initialConversation))
             = Some ''0888123456''"
    by (simp add: updateBookingData_def Let_def spread_def fillAll_def)
  from isComplete_characterised [of "updateBookingData fillAll initialConversation"] c
  have "currentStep (updateBookingData fillAll initialConversation) = StepConfirmation"
    by blast
  then show ?thesis
    using c p by simp
qed

section \<open>The end of a user turn\<close>

lemma advanced_refl: "advanced s s"
  by (simp add: advanced_def)

lemma advanced_trans: "advanced s s' \<Longrightarrow> advanced s' s'' \<Longrightarrow> advanced s s''"
  unfolding advanced_def
  by (cases "isProcessingRef s"; cases "isProcessingRef s'"; cases "isProcessingRef s''"; simp)

lemma handleFinalTranscript_advanced: "advanced s (handleFinalTranscript text s)"
  by (simp add: advanced_def handleFinalTranscript_def setStatus_def processingCount_def)

lemma handleFinalTranscript_processing:
  "trim text \<noteq> [] \<Longrightarrow> isProcessingRef (handleFinalTranscript text s)"
  by (simp add: handleFinalTranscript_def setStatus_def)

lemma handleTranscript_keeps:
  "isProcessingRef (handleTranscript text final s) = isProcessingRef s"
  "statusTrace (handleTranscript text final s) = statusTrace s"
  "clockMs (handleTranscript text final s) = clockMs s"
  by (simp_all add: handleTranscript_def clearTimeout_def Let_def split: option.splits)

lemma handleTranscript_advanced: "advanced s (handleTranscript text final s)"
  by (simp add: advanced_def handleTranscript_keeps processingCount_def)

lemma onTranscriptMessage_advanced: "advanced s (onTranscriptMessage text final s)"
  unfolding onTranscriptMessage_def
  using handleFinalTranscript_advanced handleTranscript_advanced advanced_trans advanced_refl
  by (metis (full_types))

lemma fireTimeout_advanced: "advanced s (fireTimeout t s)"
proof (cases "t \<in> set (pendingTimeouts s)")
  case True
  let ?s1 = "s\<lparr>pendingTimeouts := filter (\<lambda>t'. t' \<noteq> t) (pendingTimeouts s)\<rparr>"
  have "advanced s ?s1"
    by (simp add: advanced_def processingCount_def)
  then show ?thesis
    using True handleFinalTranscript_advanced [of ?s1] advanced_trans
    by (simp add: fireTimeout_def)
next
  case False
  then show ?thesis by (simp add: fireTimeout_def advanced_refl)
qed

lemma fold_fire_advanced: "advanced s (foldl (\<lambda>s' t. fireTimeout t s') s ts)"
proof (induction ts arbitrary: s)
  case Nil
  show ?case by (simp add: advanced_refl)
next
  case (Cons t ts)
  show ?case
    using fireTimeout_advanced [of s t] Cons.IH [of "fireTimeout t s"] advanced_trans
    by simp
qed

lemma elapse_advanced: "advanced s (elapse dt s)"
proof -
  let ?s1 = "s\<lparr>clockMs := clockMs s + dt\<rparr>"
  have "advanced s ?s1"
    by (simp add: advanced_def processingCount_def)
  then show ?thesis
    using fold_fire_advanced [of ?s1] advanced_trans
    by (simp add: elapse_def Let_def)
qed

lemma speech_step_advanced: "speechEvent e \<Longrightarrow> advanced s (turnStep s e)"
  by (cases e) (simp_all add: onTranscriptMessage_advanced elapse_advanced)

lemma speech_run_advanced:
  "list_all speechEvent evs \<Longrightarrow> advanced s (runTurn evs s)"
proof (induction evs arbitrary: s)
  case Nil
  show ?case by (simp add: runTurn_def advanced_refl)
next
  case (Cons e evs)
  have "advanced s (turnStep s e)"
    using Cons.prems speech_step_advanced by simp
  moreover have "advanced (turnStep s e) (runTurn evs (turnStep s e))"
    using Cons by simp
  ultimately show ?case
    using advanced_trans by (simp add: runTurn_def)
qed

lemma incremental_speech: "list_all speechEvent (incremental incs)"
  by (induction incs rule: incremental.induct) simp_all

lemma utterance_speech: "list_all speechEvent (utterance incs term)"
  by (cases "term") (simp_all add: utterance_def incremental_speech)

lemma runTurn_append: "runTurn (xs @ ys) s = runTurn ys (runTurn xs s)"
  by (simp add: runTurn_def)

lemma fold_fire_processing_kept:
  "isProcessingRef s \<Longrightarrow> isProcessingRef (foldl (\<lambda>s' t. fireTimeout t s') s ts)"
  using fold_fire_advanced [of s ts] by (simp add: advanced_def)

lemma fireTimeout_pending_other:
  "t \<in> set (pendingTimeouts s) \<Longrightarrow> t' \<noteq> t \<Longrightarrow> t \<in> set (pendingTimeouts (fireTimeout t' s))"
  by (simp add: fireTimeout_def handleFinalTranscript_def setStatus_def)

lemma fold_fire_due:
  "t \<in> set ts \<Longrightarrow> t \<in> set (pendingTimeouts s) \<Longrightarrow> trim (snd (snd t)) \<noteq> []
     \<Longrightarrow> isProcessingRef (foldl (\<lambda>s' t. fireTimeout t s') s ts)"
proof (induction ts arbitrary: s)
  case Nil
  then show ?case by simp
next
  case (Cons a ts)
  show ?case
  proof (cases "a = t")
    case True
    have "isProcessingRef (fireTimeout t s)"
      using Cons.prems(2,3) by (simp add: fireTimeout_def handleFinalTranscript_processing)
    then show ?thesis
      using True fold_fire_processing_kept by simp
  next
    case False
    then have "t \<in> set ts" using Cons.prems(1) by simp
    moreover have "t \<in> set (pendingTimeouts (fireTimeout a s))"
      using Cons.prems(2) False fireTimeout_pending_other by simp
    ultimately show ?thesis
      using Cons.IH [of "fireTimeout a s"] Cons.prems(3) by simp
  qed
qed

lemma silence_after_update:
  assumes "length text > 5" and "trim text \<noteq> []"
  shows "isProcessingRef (elapse 1500 (onTranscriptMessage text False s))"
proof (cases "isProcessingRef s")
  case True
  then have "isProcessingRef (onTranscriptMessage text False s)"
    using onTranscriptMessage_advanced [of s "text" False] by (simp add: advanced_def)
  then show ?thesis
    using elapse_advanced [of "onTranscriptMessage text False s" 1500]
    by (simp add: advanced_def)
next
  case False
  let ?s2 = "onTranscriptMessage text False s"
  let ?t = "(nextTimeoutId s, clockMs s + 1500, text)"
  have ne: "text \<noteq> []" using assms(1) by auto
  have pend: "?t \<in> set (pendingTimeouts ?s2)"
    using False assms(1) ne
    by (simp add: onTranscriptMessage_def handleTranscript_def clearTimeout_def Let_def
        split: option.splits)
  have clk: "clockMs ?s2 = clockMs s"
    using ne by (simp add: onTranscriptMessage_def handleTranscript_keeps)
  have due: "?t \<in> set (filter (\<lambda>t. fst (snd t) \<le> clockMs ?s2 + 1500) (pendingTimeouts ?s2))"
    using pend clk by simp
  have "isProcessingRef (foldl (\<lambda>s' t. fireTimeout t s') (?s2\<lparr>clockMs := clockMs ?s2 + 1500\<rparr>)
          (filter (\<lambda>t. fst (snd t) \<le> clockMs ?s2 + 1500) (pendingTimeouts ?s2)))"
    using fold_fire_due [OF due, of "?s2\<lparr>clockMs := clockMs ?s2 + 1500\<rparr>"] pend assms(2)
    by simp
  then show ?thesis
    by (simp add: elapse_def Let_def)
qed

lemma final_signal_processing:
  "trim text \<noteq> [] \<Longrightarrow> isProcessingRef (onTranscriptMessage text True s)"
  by (auto simp: onTranscriptMessage_def handleTranscript_keeps handleFinalTranscript_processing
      trim_def)

lemma incremental_snoc:
  "incremental (incs @ [(gap, text)]) = incremental incs @ [Elapse gap, Transcript text False]"
  by (induction incs rule: incremental.induct) simp_all

lemma utterance_processing:
  assumes "endsTurn incs term"
  shows "isProcessingRef (runTurn (utterance incs term) s)"
proof (cases "term")
  case (FinalSignal gap tx)
  then have "trim tx \<noteq> []" using assms by (simp add: endsTurn_def)
  then show ?thesis
    using FinalSignal final_signal_processing
    by (simp add: utterance_def runTurn_def)
next
  case Silence
  then have t: "trim (closingText incs Silence) \<noteq> []"
    and l: "length (closingText incs Silence) > 5"
    using assms by (simp_all add: endsTurn_def)
  then obtain incs' gap tx where incs: "incs = incs' @ [(gap, tx)]"
    by (cases incs rule: rev_cases) (auto simp: trim_def)
  have ct: "closingText incs Silence = tx"
    using incs by simp
  show ?thesis
    using Silence incs t l ct silence_after_update [of tx]
    by (simp add: utterance_def incremental_snoc runTurn_def)
qed

lemma handleTranscript_oneTimer: "oneTimer s \<Longrightarrow> oneTimer (handleTranscript text final s)"
  by (cases "pendingTimeouts s")
     (auto simp: oneTimer_def handleTranscript_def clearTimeout_def Let_def split: option.splits)

lemma handleFinalTranscript_oneTimer: "oneTimer s \<Longrightarrow> oneTimer (handleFinalTranscript text s)"
  by (simp add: oneTimer_def handleFinalTranscript_def setStatus_def)

lemma fireTimeout_oneTimer: "oneTimer s \<Longrightarrow> oneTimer (fireTimeout t s)"
  by (cases "pendingTimeouts s")
     (auto simp: oneTimer_def fireTimeout_def handleFinalTranscript_def setStatus_def)

lemma fold_fire_oneTimer: "oneTimer s \<Longrightarrow> oneTimer (foldl (\<lambda>s' t. fireTimeout t s') s ts)"
  by (induction ts arbitrary: s) (simp_all add: fireTimeout_oneTimer)

lemma elapse_oneTimer: "oneTimer s \<Longrightarrow> oneTimer (elapse dt s)"
proof -
  assume "oneTimer s"
  then have "oneTimer (s\<lparr>clockMs := clockMs s + dt\<rparr>)" by (simp add: oneTimer_def)
  then show ?thesis
    using fold_fire_oneTimer by (simp add: elapse_def Let_def)
qed

lemma turnStep_oneTimer: "oneTimer s \<Longrightarrow> oneTimer (turnStep s e)"
proof (cases e)
  case (Transcript tx final)
  assume "oneTimer s"
  then show ?thesis
    using Transcript handleTranscript_oneTimer handleFinalTranscript_oneTimer
    by (simp add: onTranscriptMessage_def)
next
  case (Elapse dt)
  assume "oneTimer s"
  then show ?thesis using Elapse elapse_oneTimer by simp
next
  case TtsStart
  assume "oneTimer s"
  then show ?thesis using TtsStart by (simp add: onStart_def setStatus_def oneTimer_def)
next
  case TtsEnd
  assume "oneTimer s"
  then show ?thesis using TtsEnd by (simp add: onEnd_def setStatus_def oneTimer_def)
next
  case ProcessingFailed
  assume "oneTimer s"
  then show ?thesis
    using ProcessingFailed by (simp add: processingFailed_def setStatus_def oneTimer_def)
next
  case StopSession
  assume "oneTimer s"
  then show ?thesis
    using StopSession
    by (cases "pendingTimeouts s")
       (auto simp: stopSession_def setStatus_def oneTimer_def clearTimeout_def Let_def
         split: option.splits)
qed

lemma runTurn_oneTimer: "oneTimer s \<Longrightarrow> oneTimer (runTurn evs s)"
  by (induction evs arbitrary: s) (simp_all add: runTurn_def turnStep_oneTimer)


text \<open>
  Claim C8, as stated, fails for an utterance that arrives while the controller is still
  processing the previous one, and for a final signal whose text is blank, be it of
  spaces or of no-break spaces: none of them moves the controller to processing.
\<close>

theorem utterance_can_be_ignored:
  "processingCount (runTurn (firstRequest @ secondRequest) listeningController)
     = processingCount (runTurn firstRequest listeningController)
   \<and> processingCount (runTurn blankFinal listeningController)
     = processingCount listeningController
   \<and> processingCount (runTurn noBreakFinal listeningController)
     = processingCount listeningController"
  by (simp add: noBreakFinal_def firstRequest_def secondRequest_def blankFinal_def utterance_def runTurn_def
      listeningController_def onTranscriptMessage_def handleTranscript_def
      handleFinalTranscript_def elapse_def fireTimeout_def clearTimeout_def setStatus_def
      processingCount_def trim_def isSpace_def units_def iskamChas_def Let_def)

text \<open>
  Claim C8, amended. An utterance never moves the controller to processing more than
  once, from any state. It does so exactly once when the controller is not already
  processing and the text that ends the utterance is not blank, that is, \<open>trim\<close> leaves
  some of it (and it is longer than 5 code units when silence ends it). Every event keeps at most one silence timer
  pending, the one the ref holds, starting from the listening controller.
\<close>

theorem utterance_processed_once:
  "processingCount (runTurn (utterance incs tm) s) \<le> processingCount s + 1
   \<and> (\<not> isProcessingRef s \<and> endsTurn incs tm \<longrightarrow>
        processingCount (runTurn (utterance incs tm) s) = processingCount s + 1)
   \<and> (oneTimer s \<longrightarrow> oneTimer (runTurn evs s))
   \<and> oneTimer listeningController"
proof -
  have adv: "advanced s (runTurn (utterance incs tm) s)"
    using speech_run_advanced utterance_speech by simp
  then have bound: "processingCount (runTurn (utterance incs tm) s) \<le> processingCount s + 1"
    by (simp add: advanced_def)
  have once: "processingCount (runTurn (utterance incs tm) s) = processingCount s + 1"
    if "\<not> isProcessingRef s" and "endsTurn incs tm"
    using adv that utterance_processing [of incs tm s] by (simp add: advanced_def)
  have "oneTimer listeningController"
    by (simp add: oneTimer_def listeningController_def)
  then show ?thesis
    using bound once runTurn_oneTimer by blast
qed

theorem utterance_processed_once_witness:
  "\<not> isProcessingRef listeningController
   \<and> endsTurn [(200, iskamChas)] Silence
   \<and> processingCount listeningController = 0
   \<and> processingCount (runTurn (utterance [(200, iskamChas)] Silence) listeningController) = 1
   \<and> oneTimer (runTurn firstRequest listeningController)"
proof -
  have p: "\<not> isProcessingRef listeningController"
    by (simp add: listeningController_def)
  have e: "endsTurn [(200, iskamChas)] Silence"
    by (simp add: endsTurn_def trim_def isSpace_def iskamChas_def units_def)
  have z: "processingCount listeningController = 0"
    by (simp add: processingCount_def listeningController_def)
  have o: "oneTimer listeningController"
    by (simp add: oneTimer_def listeningController_def)
  note t = utterance_processed_once [of "[(200, iskamChas)]" Silence listeningController
      firstRequest]
  have c: "processingCount (runTurn (utterance [(200, iskamChas)] Silence)
             listeningController) = 1"
    using t p e z by simp
  have i: "oneTimer (runTurn firstRequest listeningController)"
    using t o by blast
  show ?thesis
    using p e z c i by simp
qed

section \<open>Booking an appointment through the agent\<close>

lemma withTimeout_answers:
  "ms < TOOL_TIMEOUT_MS \<Longrightarrow> withTimeout (answer (Answers ms) failure v) TOOL_TIMEOUT_MS = (Inr v, ms)"
  by (simp add: withTimeout_def answer_def)

lemma getCached_miss:
  assumes "appointmentsCache s (bId @ '':'' @ d) = None"
    and "newDate e d \<noteq> InvalidDate"
    and "readNet e = Answers ms" and "ms < TOOL_TIMEOUT_MS"
  shows "getCachedAppointmentsForDate e bId d s =
           (Inr (appointmentsOfDay (firestore s) bId (newDate e d)),
            s\<lparr>dateNow := dateNow s + ms,
              appointmentsCache := (appointmentsCache s)(bId @ '':'' @ d \<mapsto>
                (appointmentsOfDay (firestore s) bId (newDate e d), dateNow s + ms))\<rparr>)"
  using assms
  by (simp add: getCachedAppointmentsForDate_def loadAppointmentsForDateRange_def
      withTimeout_answers Let_def)

lemma getCached_hit:
  assumes "appointmentsCache s (bId @ '':'' @ d) = Some (data, ts)"
    and "int (dateNow s) - int ts < APPOINTMENTS_CACHE_TTL_MS"
  shows "getCachedAppointmentsForDate e bId d s = (Inr data, s)"
  using assms by (simp add: getCachedAppointmentsForDate_def Let_def)

lemma getCached_expired:
  assumes "appointmentsCache s (bId @ '':'' @ d) = Some (old, ts)"
    and "\<not> int (dateNow s) - int ts < APPOINTMENTS_CACHE_TTL_MS"
    and "newDate e d \<noteq> InvalidDate"
    and "readNet e = Answers ms" and "ms < TOOL_TIMEOUT_MS"
  shows "getCachedAppointmentsForDate e bId d s =
           (Inr (appointmentsOfDay (firestore s) bId (newDate e d)),
            s\<lparr>dateNow := dateNow s + ms,
              appointmentsCache := (appointmentsCache s)(bId @ '':'' @ d \<mapsto>
                (appointmentsOfDay (firestore s) bId (newDate e d), dateNow s + ms))\<rparr>)"
  using assms
  by (simp add: getCachedAppointmentsForDate_def loadAppointmentsForDateRange_def
      withTimeout_answers Let_def)

lemmas isoDate_defs = sofiaDate_def isoDate_def isoDay_def isoTime_def rollOver_def
  daysInMonth_def Number_def digit_def

lemma day20: "sofiaDate ''2026-03-20'' = LocalDate 2026 3 20 2 0"
  by (simp add: isoDate_defs)

lemma slot20: "sofiaDate ''2026-03-20T10:00'' = LocalDate 2026 3 20 10 0"
  by (simp add: isoDate_defs)

lemma free_empty: "d \<noteq> [] \<Longrightarrow> getFreeSlots D d bId [] = TIME_SLOTS"
  by (simp add: getFreeSlots_def isSlotAvailable_def)


lemma firestore_after_cached:
  "firestore (snd (getCachedAppointmentsForDate e bId d s)) = firestore s"
  by (simp add: getCachedAppointmentsForDate_def Let_def split: option.splits prod.splits sum.splits)

lemma book_slot_taken:
  assumes "barbers st \<noteq> []" and "services st \<noteq> []"
    and "arg_barberId args = Some bId" and "bId \<noteq> []" and "knownBarber st bId"
    and "knownService st (arg_serviceId args)"
    and "getCachedAppointmentsForDate e bId (arg_date args) s = (Inr checkAppts, s1)"
    and "arg_time args \<notin> set (getFreeSlots (newDate e) (arg_date args) bId checkAppts)"
  shows "bookAppointment e st args s = (Inr (Failure MSG_SLOT_TAKEN), s1)"
    and "firestore s1 = firestore s"
proof -
  show "bookAppointment e st args s = (Inr (Failure MSG_SLOT_TAKEN), s1)"
    using assms by (simp add: bookAppointment_def bookChecked_def)
  show "firestore s1 = firestore s"
    using firestore_after_cached [of e bId "arg_date args" s] assms(7) by simp
qed

lemmas tool_defs = answerCall_def respond_def runTool_def getAvailableSlots_def bookAppointment_def
  bookChecked_def writeBooking_def getCachedAppointmentsForDate_def
  loadAppointmentsForDateRange_def createAppointment_def withTimeout_def answer_def
  appointmentsOfDay_def knownBarber_def knownService_def isDuplicate_def bookingKey_def
  normalizePhone_def onlyDigits_def startsWith_def digit_def
  TOOL_TIMEOUT_MS_def APPOINTMENTS_CACHE_TTL_MS_def Let_def

lemmas example_defs = mounted_def fastNet_def shop_def askSlots_def bookIvan_def noArgs_def
  morning_def timePasses_def bookedElsewhere_def rivalBooking_def

lemma slots_read:
  "answerCall fastNet shop askSlots mounted =
     (\<lparr>resp_id = ''c1'', resp_name = ''get_available_slots'', resp_result = SlotList TIME_SLOTS\<rparr>,
      mounted\<lparr>dateNow := 200,
         appointmentsCache := Map.empty(''b1:2026-03-20'' \<mapsto> ([], 200))\<rparr>)"
  by (simp add: tool_defs example_defs day20 free_empty)


lemma in_free_slots:
  "(time \<in> set (getFreeSlots D d bId appts))
     = (time \<in> set TIME_SLOTS \<and> isSlotAvailable D time d bId appts)"
  by (simp add: getFreeSlots_def)

lemma ten_in_grid: "''10:00'' \<in> set TIME_SLOTS"
  by (simp add: TIME_SLOTS_def)

lemma race_lost:
  "raceLost =
     (\<lparr>resp_id = ''c2'', resp_name = ''book_appointment'',
       resp_result = Success (Some ''doc1'') (MSG_BOOKED (call_args bookIvan) ''359888123456'')\<rparr>,
      mounted\<lparr>dateNow := 5500,
        appointmentsCache := Map.empty(''b1:2026-03-20'' \<mapsto> ([], 200)),
        firestore := [rivalBooking, ivanAtTen],
        onBookCalls := [ivanAtTen],
        lastBookingRef := Some (''b1|s1|2026-03-20|10:00|359888123456'', 5500)\<rparr>)"
  unfolding raceLost_def afterSlotsRead_def slots_read
  by (simp add: tool_defs example_defs ivanAtTen_def day20 slot20 free_empty ten_in_grid)

lemma first_booking:
  "firstBooking =
     (\<lparr>resp_id = ''c2'', resp_name = ''book_appointment'',
       resp_result = Success (Some ''doc1'') (MSG_BOOKED (call_args bookIvan) ''359888123456'')\<rparr>,
      mounted\<lparr>dateNow := 10500,
        appointmentsCache := Map.empty(''b1:2026-03-20'' \<mapsto> ([], 200)),
        firestore := [ivanAtTen],
        onBookCalls := [ivanAtTen],
        lastBookingRef := Some (''b1|s1|2026-03-20|10:00|359888123456'', 10500)\<rparr>)"
  unfolding firstBooking_def afterSlotsRead_def slots_read
  by (simp add: tool_defs example_defs ivanAtTen_def day20 slot20 free_empty ten_in_grid)

lemma ivan_occupies: "occupies sofiaDate ivanAtTen ''10:00'' ''2026-03-20'' ''b1''"
  by (simp add: occupies_def ivanAtTen_def slot20)

lemma rival_occupies: "occupies sofiaDate rivalBooking ''10:00'' ''2026-03-20'' ''b1''"
  by (simp add: occupies_def rivalBooking_def slot20)

lemma ten_taken_by_ivan: "\<not> isSlotAvailable sofiaDate ''10:00'' ''2026-03-20'' ''b1'' [ivanAtTen]"
  using ivan_occupies by (simp add: isSlotAvailable_iff) (simp add: ivanAtTen_def)

lemma ivan_of_day: "appointmentsOfDay [ivanAtTen] ''b1'' (LocalDate 2026 3 20 2 0) = [ivanAtTen]"
  by (simp add: appointmentsOfDay_def ivanAtTen_def)

lemma repeated_soon:
  "repeatedSoon =
     (\<lparr>resp_id = ''c2'', resp_name = ''book_appointment'',
       resp_result = Failure MSG_SLOT_TAKEN\<rparr>,
      mounted\<lparr>dateNow := 16700,
        appointmentsCache := Map.empty(''b1:2026-03-20'' \<mapsto> ([ivanAtTen], 16700)),
        firestore := [ivanAtTen],
        onBookCalls := [ivanAtTen],
        lastBookingRef := Some (''b1|s1|2026-03-20|10:00|359888123456'', 10500)\<rparr>)"
  unfolding repeatedSoon_def first_booking
  by (simp add: answerCall_def respond_def runTool_def bookAppointment_def bookChecked_def
      getCachedAppointmentsForDate_def loadAppointmentsForDateRange_def withTimeout_def
      answer_def knownBarber_def knownService_def TOOL_TIMEOUT_MS_def
      APPOINTMENTS_CACHE_TTL_MS_def Let_def mounted_def fastNet_def shop_def bookIvan_def
      noArgs_def timePasses_def day20 ivan_of_day in_free_slots ten_taken_by_ivan)

lemma direct_booking:
  "directBooking =
     (\<lparr>resp_id = ''c2'', resp_name = ''book_appointment'',
       resp_result = Success (Some ''doc1'') (MSG_BOOKED (call_args bookIvan) ''359888123456'')\<rparr>,
      mounted\<lparr>dateNow := 500,
        appointmentsCache := Map.empty(''b1:2026-03-20'' \<mapsto> ([], 200)),
        firestore := [ivanAtTen],
        onBookCalls := [ivanAtTen],
        lastBookingRef := Some (''b1|s1|2026-03-20|10:00|359888123456'', 500)\<rparr>)"
  unfolding directBooking_def
  by (simp add: tool_defs example_defs ivanAtTen_def day20 slot20 free_empty ten_in_grid)

lemma repeated_at_once:
  "repeatedAtOnce =
     (\<lparr>resp_id = ''c2'', resp_name = ''book_appointment'',
       resp_result = Success (Some ''duplicate'') (MSG_ALREADY_BOOKED ''359888123456'')\<rparr>,
      timePasses 5000 (snd directBooking))"
  unfolding repeatedAtOnce_def direct_booking
  by (simp add: tool_defs example_defs day20 slot20 free_empty ten_in_grid)

lemma repeated_late:
  "repeatedLate =
     (\<lparr>resp_id = ''c2'', resp_name = ''book_appointment'',
       resp_result = Success (Some ''doc2'') (MSG_BOOKED (call_args bookIvan) ''359888123456'')\<rparr>,
      mounted\<lparr>dateNow := 11800,
        appointmentsCache := Map.empty(''b1:2026-03-20'' \<mapsto> ([], 200)),
        firestore := [ivanAtTen, ivanAtTen\<lparr>apt_id := ''doc2''\<rparr>],
        onBookCalls := [ivanAtTen, ivanAtTen\<lparr>apt_id := ''doc2''\<rparr>],
        lastBookingRef := Some (''b1|s1|2026-03-20|10:00|359888123456'', 11800)\<rparr>)"
  unfolding repeatedLate_def direct_booking
  by (simp add: tool_defs example_defs ivanAtTen_def day20 slot20 free_empty ten_in_grid)

lemma slots_shape:
  assumes "call_name call = ''get_available_slots''"
    and "resp_result (fst (answerCall e st call s)) = SlotList slots"
  shows "\<exists>bId appts. arg_barberId (call_args call) = Some bId \<and> knownBarber st bId
           \<and> fst (getCachedAppointmentsForDate e bId (arg_date (call_args call)) s) = Inr appts
           \<and> slots = (if arg_date (call_args call) = todaySofia (calendar e)
                       then filter (afterLeadTime e)
                              (getFreeSlots (newDate e) (arg_date (call_args call)) bId appts)
                       else getFreeSlots (newDate e) (arg_date (call_args call)) bId appts)"
proof -
  have r: "runTool e st call s = getAvailableSlots e st (call_args call) s"
    using assms(1) by (simp add: runTool_def)
  obtain bId where b: "arg_barberId (call_args call) = Some bId" "knownBarber st bId"
    "barbers st \<noteq> []"
    using assms(2) r
    by (cases "arg_barberId (call_args call)")
       (auto simp: answerCall_def respond_def getAvailableSlots_def caught_def split: if_splits)
  obtain c s1 where c: "getCachedAppointmentsForDate e bId (arg_date (call_args call)) s = (c, s1)"
    by (cases "getCachedAppointmentsForDate e bId (arg_date (call_args call)) s")
  then obtain appts where a: "c = Inr appts"
    using assms(2) r b
    by (cases c) (auto simp: answerCall_def respond_def getAvailableSlots_def caught_def)
  show ?thesis
    using assms(2) r b c a
    by (auto simp: answerCall_def respond_def getAvailableSlots_def)
qed

lemma afterLeadTime_late:
  "afterLeadTime e slot \<Longrightarrow>
     \<exists>start. slotStartMs slot = Some start \<and> int (msOfDay (calendar e)) + 45 * 60000 < int start"
  by (auto simp: afterLeadTime_def split: option.splits)


lemma day19: "sofiaDate ''2026-03-19'' = LocalDate 2026 3 19 2 0"
  by (simp add: isoDate_defs)

lemma day19_tokyo: "isoDate 9 ''2026-03-19'' = LocalDate 2026 3 19 9 0"
  by (simp add: isoDate_def isoDay_def rollOver_def daysInMonth_def Number_def digit_def)

lemma grid_starts:
  "map slotStartMs TIME_SLOTS =
     [Some 36000000, Some 39600000, Some 43200000, Some 46800000, Some 50400000,
      Some 54000000, Some 57600000, Some 61200000, Some 64800000]"
  by (simp add: TIME_SLOTS_def slotStartMs_def Number_def digit_def)

lemma today_slots:
  "resp_result (fst (answerCall halfPastNine shop askToday mounted))
     = SlotList [''11:00'', ''12:00'', ''13:00'', ''14:00'', ''15:00'', ''16:00'', ''17:00'',
                 ''18:00'']"
proof -
  have late: "filter (afterLeadTime halfPastNine) TIME_SLOTS
     = [''11:00'', ''12:00'', ''13:00'', ''14:00'', ''15:00'', ''16:00'', ''17:00'', ''18:00'']"
    using grid_starts
    by (simp add: TIME_SLOTS_def afterLeadTime_def halfPastNine_def fastNet_def morning_def)
  have net: "readNet halfPastNine = Answers 200"
    and today: "todaySofia (calendar halfPastNine) = ''2026-03-19''"
    and parser: "newDate halfPastNine = sofiaDate"
    by (simp_all add: halfPastNine_def fastNet_def morning_def)
  show ?thesis
    by (simp add: answerCall_def respond_def runTool_def getAvailableSlots_def
        getCachedAppointmentsForDate_def loadAppointmentsForDateRange_def withTimeout_def
        answer_def appointmentsOfDay_def knownBarber_def TOOL_TIMEOUT_MS_def Let_def
        mounted_def shop_def askToday_def noArgs_def day19 free_empty late net today parser)
qed

lemma tokyo_slots:
  "resp_result (fst (answerCall abroad shop askToday mounted)) = SlotList TIME_SLOTS"
proof -
  have late: "filter (afterLeadTime abroad) TIME_SLOTS = TIME_SLOTS"
    using grid_starts
    by (simp add: TIME_SLOTS_def afterLeadTime_def abroad_def fastNet_def tokyoNight_def)
  have net: "readNet abroad = Answers 200"
    and today: "todaySofia (calendar abroad) = ''2026-03-19''"
    and parser: "newDate abroad = isoDate 9"
    by (simp_all add: abroad_def fastNet_def tokyoNight_def)
  show ?thesis
    by (simp add: answerCall_def respond_def runTool_def getAvailableSlots_def
        getCachedAppointmentsForDate_def loadAppointmentsForDateRange_def withTimeout_def
        answer_def appointmentsOfDay_def knownBarber_def TOOL_TIMEOUT_MS_def Let_def
        mounted_def shop_def askToday_def noArgs_def day19_tokyo free_empty late net today
        parser)
qed

lemma other_day_unfiltered:
  assumes "call_name call = ''get_available_slots''"
    and "resp_result (fst (answerCall e st call s)) = SlotList slots"
    and "arg_date (call_args call) \<noteq> todaySofia (calendar e)"
  shows "\<exists>bId appts. arg_barberId (call_args call) = Some bId
           \<and> fst (getCachedAppointmentsForDate e bId (arg_date (call_args call)) s) = Inr appts
           \<and> slots = getFreeSlots (newDate e) (arg_date (call_args call)) bId appts"
  using slots_shape [OF assms(1,2)] assms(3) by auto

text \<open>
  Claim C1 fails on the code. The agent reads the free slots of 20 March, which caches
  the day's appointments for 15 seconds; another process then books 10:00; five seconds
  after the read the agent books 10:00 for Ivan. The check before the write reads the
  cached appointments, finds 10:00 free, and the booking succeeds: the store then holds
  two appointments that occupy the slot.
\<close>

theorem stale_recheck_double_books:
  "resp_result (fst (answerCall fastNet shop askSlots mounted)) = SlotList TIME_SLOTS
   \<and> occupants (timePasses 5000 (bookedElsewhere rivalBooking afterSlotsRead))
        ''10:00'' ''2026-03-20'' ''b1'' = [rivalBooking]
   \<and> isSuccess (resp_result (fst raceLost))
   \<and> occupants (snd raceLost) ''10:00'' ''2026-03-20'' ''b1'' = [rivalBooking, ivanAtTen]"
proof -
  have before: "occupants (timePasses 5000 (bookedElsewhere rivalBooking afterSlotsRead))
        ''10:00'' ''2026-03-20'' ''b1'' = [rivalBooking]"
    unfolding afterSlotsRead_def slots_read
    using rival_occupies
    by (simp add: occupants_def timePasses_def bookedElsewhere_def mounted_def)
       (simp add: rivalBooking_def)
  have after: "occupants (snd raceLost) ''10:00'' ''2026-03-20'' ''b1'' = [rivalBooking, ivanAtTen]"
    unfolding race_lost
    using rival_occupies ivan_occupies
    by (simp add: occupants_def mounted_def) (simp add: rivalBooking_def ivanAtTen_def)
  show ?thesis
    using before after by (simp add: slots_read race_lost)
qed

text \<open>
  Claim C2 fails on the code. (a) The agent reads the slots, books 10:00 ten seconds
  later from the cached appointments, and receives the identical request six seconds
  after that booking: the cache has expired, the fresh read contains the agent's own
  booking, and the request is refused as "slot taken" before the duplicate check is
  reached. (b) The agent books 10:00 and receives the identical request eleven seconds
  later: the duplicate window is over, the cached appointments still show 10:00 free,
  and a second record is written for the same slot.
\<close>

theorem repeated_booking_refused_or_doubled:
  "isSuccess (resp_result (fst firstBooking))
   \<and> lastBookingRef (snd firstBooking) = Some (''b1|s1|2026-03-20|10:00|359888123456'', 10500)
   \<and> dateNow (timePasses 6000 (snd firstBooking)) = 16500
   \<and> resp_result (fst repeatedSoon) = Failure MSG_SLOT_TAKEN
   \<and> isSuccess (resp_result (fst directBooking))
   \<and> lastBookingRef (snd directBooking) = Some (''b1|s1|2026-03-20|10:00|359888123456'', 500)
   \<and> dateNow (timePasses 11000 (snd directBooking)) = 11500
   \<and> resp_result (fst repeatedLate)
       = Success (Some ''doc2'') (MSG_BOOKED (call_args bookIvan) ''359888123456'')
   \<and> firestore (snd repeatedLate) = [ivanAtTen, ivanAtTen\<lparr>apt_id := ''doc2''\<rparr>]"
  by (simp add: first_booking repeated_soon direct_booking repeated_late timePasses_def
      mounted_def)

text \<open>
  Claim C5 fails on the code. The requested date is compared with today's date in
  Sofia, but the lead time is measured on the browser's local clock: \<open>setHours\<close> puts
  the slot on the browser's local day. A browser in Tokyo asks at 18:00 Sofia time for
  the slots of today, 19 March, when its own clock shows 01:00: every slot of the grid
  is returned, among them 10:00, which began eight hours ago and which the search for
  the earliest slot skips as past.
\<close>

theorem lead_time_on_local_clock:
  "call_name askToday = ''get_available_slots''
   \<and> arg_date (call_args askToday) = todaySofia (calendar abroad)
   \<and> hourSofia (calendar abroad) = 18
   \<and> msOfDay (calendar abroad) = 3600000
   \<and> resp_result (fst (answerCall abroad shop askToday mounted)) = SlotList TIME_SLOTS
   \<and> hd TIME_SLOTS = ''10:00''
   \<and> skipped (calendar abroad) (arg_date (call_args askToday)) ''10:00''"
proof -
  have n: "call_name askToday = ''get_available_slots''"
    by (simp add: askToday_def)
  have d: "arg_date (call_args askToday) = todaySofia (calendar abroad)"
    and h: "hourSofia (calendar abroad) = 18"
    and m: "msOfDay (calendar abroad) = 3600000"
    by (simp_all add: askToday_def noArgs_def abroad_def fastNet_def tokyoNight_def)
  have g: "hd TIME_SLOTS = ''10:00''"
    by (simp add: TIME_SLOTS_def)
  have k: "skipped (calendar abroad) (arg_date (call_args askToday)) ''10:00''"
    by (simp add: skipped_def askToday_def noArgs_def abroad_def fastNet_def tokyoNight_def
        Number_def digit_def)
  show ?thesis
    using n d h m g k by (simp add: tokyo_slots)
qed

section \<open>What the tool handlers leave unchanged\<close>

lemma cached_date_part:
  "sessionPart (snd (getCachedAppointmentsForDate e bId d s)) = sessionPart s"
  by (simp add: getCachedAppointmentsForDate_def sessionPart_def Let_def
      split: option.splits prod.splits sum.splits)

lemma cached_range_part:
  "sessionPart (snd (getCachedAppointmentsRange e s)) = sessionPart s"
  by (simp add: getCachedAppointmentsRange_def sessionPart_def Let_def
      split: option.splits prod.splits sum.splits)

lemma slots_part: "sessionPart (snd (getAvailableSlots e st args s)) = sessionPart s"
proof -
  have "sessionPart s1 = sessionPart s"
    if "getCachedAppointmentsForDate e bId d s = (r, s1)" for bId d r s1
    using cached_date_part [of e bId d s] that by simp
  then show ?thesis
    by (simp add: getAvailableSlots_def Let_def split: prod.splits sum.splits)
qed

lemma earliest_part: "sessionPart (snd (findEarliestSlot e st args s)) = sessionPart s"
proof -
  have "sessionPart s1 = sessionPart s"
    if "getCachedAppointmentsRange e s = (r, s1)" for r s1
    using cached_range_part [of e s] that by simp
  then show ?thesis
    by (simp add: findEarliestSlot_def split: prod.splits sum.splits option.splits)
qed

lemma write_part: "sessionPart (snd (writeBooking e bId args phoneNo s)) = sessionPart s"
  by (simp add: writeBooking_def sessionPart_def Let_def split: prod.splits sum.splits)

lemma checked_part: "sessionPart (snd (bookChecked e bId args s)) = sessionPart s"
proof -
  have "sessionPart s1 = sessionPart s"
    if "getCachedAppointmentsForDate e bId d s = (r, s1)" for d r s1
    using cached_date_part [of e bId d s] that by simp
  then show ?thesis
    by (simp add: bookChecked_def Let_def write_part split: prod.splits sum.splits)
qed

lemma book_part: "sessionPart (snd (bookAppointment e st args s)) = sessionPart s"
  by (simp add: bookAppointment_def checked_part)

lemma customer_part: "sessionPart (snd (getCustomerAppointmentsTool e args s)) = sessionPart s"
  by (simp add: getCustomerAppointmentsTool_def sessionPart_def Let_def
      split: prod.splits sum.splits)

lemma reschedule_part: "sessionPart (snd (rescheduleTool e args s)) = sessionPart s"
  by (simp add: rescheduleTool_def sessionPart_def Let_def split: prod.splits sum.splits)

lemma cancel_part: "sessionPart (snd (cancelTool e args s)) = sessionPart s"
  by (simp add: cancelTool_def sessionPart_def Let_def split: prod.splits sum.splits)

lemma runTool_part: "sessionPart (snd (runTool e st call s)) = sessionPart s"
  by (simp add: runTool_def slots_part earliest_part book_part customer_part reschedule_part
      cancel_part)

lemma answerCall_part: "sessionPart (snd (answerCall e st call s)) = sessionPart s"
  using runTool_part [of e st call s]
  by (cases "runTool e st call s") (simp add: answerCall_def)

lemma sessionPart_fields:
  assumes "sessionPart s' = sessionPart s"
  shows "isActive s' = isActive s" and "agentStatus s' = agentStatus s"
    and "agentError s' = agentError s" and "conversationLogId s' = conversationLogId s"
    and "bookingCreated s' = bookingCreated s"
    and "reconnectAttempts s' = reconnectAttempts s"
    and "reconnectTimer s' = reconnectTimer s"
    and "isUserDisconnecting s' = isUserDisconnecting s"
    and "logService s' = logService s" and "armedReconnects s' = armedReconnects s"
    and "nextHandle s' = nextHandle s" and "clientRef s' = clientRef s"
    and "awaited s' = awaited s"
  using assms by (simp_all add: sessionPart_def)

lemma logging_fold:
  "sessionPart (foldl (logToolCall logId responses) s calls) =
     (sessionPart s)
       \<lparr>sp_bookingCreated := bookingCreated s \<or> actionDone responses calls,
        sp_logService :=
          logService s @ map (\<lambda>call. ToolCallLogged logId (call_name call)) calls\<rparr>"
proof (induction calls arbitrary: s)
  case Nil
  show ?case by (simp add: sessionPart_def actionDone_def)
next
  case (Cons call calls)
  show ?case
    using Cons.IH [of "logToolCall logId responses s call"]
    by (auto simp: logToolCall_def actionDone_def sessionPart_def Let_def)
qed

lemma recordResponses_part:
  "sessionPart (recordResponses responses calls s) =
     (case conversationLogId s of
        None \<Rightarrow> sessionPart s
      | Some logId \<Rightarrow>
          (sessionPart s)
            \<lparr>sp_bookingCreated := bookingCreated s \<or> actionDone responses calls,
             sp_logService :=
               logService s @ map (\<lambda>call. ToolCallLogged logId (call_name call)) calls\<rparr>)"
  by (simp add: recordResponses_def logging_fold split: option.splits)

lemma recordResponses_fields:
  "isActive (recordResponses responses calls s) = isActive s"
  "agentError (recordResponses responses calls s) = agentError s"
  "conversationLogId (recordResponses responses calls s) = conversationLogId s"
  "isUserDisconnecting (recordResponses responses calls s) = isUserDisconnecting s"
  "armedReconnects (recordResponses responses calls s) = armedReconnects s"
  "clientRef (recordResponses responses calls s) = clientRef s"
  "awaited (recordResponses responses calls s) = awaited s"
  "bookingCreated (recordResponses responses calls s)
     = (bookingCreated s \<or> (conversationLogId s \<noteq> None \<and> actionDone responses calls))"
  "endLogs (recordResponses responses calls s) = endLogs s"
proof -
  have p: "sessionPart (recordResponses responses calls s) =
     (case conversationLogId s of
        None \<Rightarrow> sessionPart s
      | Some logId \<Rightarrow>
          (sessionPart s)
            \<lparr>sp_bookingCreated := bookingCreated s \<or> actionDone responses calls,
             sp_logService :=
               logService s @ map (\<lambda>call. ToolCallLogged logId (call_name call)) calls\<rparr>)"
    by (rule recordResponses_part)
  have f: "filter isEndLog (map (\<lambda>call. ToolCallLogged logId (call_name call)) calls) = []"
    for logId
    by (induction calls) simp_all
  show "isActive (recordResponses responses calls s) = isActive s"
    using p by (cases "conversationLogId s") (simp_all add: sessionPart_def)
  show "agentError (recordResponses responses calls s) = agentError s"
    using p by (cases "conversationLogId s") (simp_all add: sessionPart_def)
  show "conversationLogId (recordResponses responses calls s) = conversationLogId s"
    using p by (cases "conversationLogId s") (simp_all add: sessionPart_def)
  show "isUserDisconnecting (recordResponses responses calls s) = isUserDisconnecting s"
    using p by (cases "conversationLogId s") (simp_all add: sessionPart_def)
  show "armedReconnects (recordResponses responses calls s) = armedReconnects s"
    using p by (cases "conversationLogId s") (simp_all add: sessionPart_def)
  show "clientRef (recordResponses responses calls s) = clientRef s"
    using p by (cases "conversationLogId s") (simp_all add: sessionPart_def)
  show "awaited (recordResponses responses calls s) = awaited s"
    using p by (cases "conversationLogId s") (simp_all add: sessionPart_def)
  show "bookingCreated (recordResponses responses calls s)
     = (bookingCreated s \<or> (conversationLogId s \<noteq> None \<and> actionDone responses calls))"
    using p by (cases "conversationLogId s") (simp_all add: sessionPart_def)
  show "endLogs (recordResponses responses calls s) = endLogs s"
    using p f by (cases "conversationLogId s") (simp_all add: sessionPart_def endLogs_def)
qed

lemma handleToolCall_fields:
  "isActive (snd (handleToolCall e st call s)) = isActive s"
  "agentError (snd (handleToolCall e st call s)) = agentError s"
  "conversationLogId (snd (handleToolCall e st call s)) = conversationLogId s"
  "isUserDisconnecting (snd (handleToolCall e st call s)) = isUserDisconnecting s"
  "armedReconnects (snd (handleToolCall e st call s)) = armedReconnects s"
  "clientRef (snd (handleToolCall e st call s)) = clientRef s"
  "awaited (snd (handleToolCall e st call s)) = awaited s"
  "bookingCreated (snd (handleToolCall e st call s))
     = (bookingCreated s
        \<or> (conversationLogId s \<noteq> None \<and> actionDone [fst (answerCall e st call s)] [call]))"
  "endLogs (snd (handleToolCall e st call s)) = endLogs s"
proof -
  obtain r s1 where a: "answerCall e st call s = (r, s1)"
    by (cases "answerCall e st call s")
  have p: "sessionPart s1 = sessionPart s"
    using answerCall_part [of e st call s] a by simp
  note f = sessionPart_fields [OF p]
  have h: "snd (handleToolCall e st call s) = recordResponses [r] [call] s1"
    using a by (simp add: handleToolCall_def)
  show "isActive (snd (handleToolCall e st call s)) = isActive s"
    unfolding h by (simp add: recordResponses_fields f)
  show "agentError (snd (handleToolCall e st call s)) = agentError s"
    unfolding h by (simp add: recordResponses_fields f)
  show "conversationLogId (snd (handleToolCall e st call s)) = conversationLogId s"
    unfolding h by (simp add: recordResponses_fields f)
  show "isUserDisconnecting (snd (handleToolCall e st call s)) = isUserDisconnecting s"
    unfolding h by (simp add: recordResponses_fields f)
  show "armedReconnects (snd (handleToolCall e st call s)) = armedReconnects s"
    unfolding h by (simp add: recordResponses_fields f)
  show "clientRef (snd (handleToolCall e st call s)) = clientRef s"
    unfolding h by (simp add: recordResponses_fields f)
  show "awaited (snd (handleToolCall e st call s)) = awaited s"
    unfolding h by (simp add: recordResponses_fields f)
  show "bookingCreated (snd (handleToolCall e st call s))
     = (bookingCreated s
        \<or> (conversationLogId s \<noteq> None \<and> actionDone [fst (answerCall e st call s)] [call]))"
    unfolding h using a by (simp add: recordResponses_fields f)
  show "endLogs (snd (handleToolCall e st call s)) = endLogs s"
    unfolding h using f(9) by (simp add: recordResponses_fields) (simp add: endLogs_def)
qed

section \<open>Reconnecting\<close>

lemma scheduleReconnect_stale: "scheduleReconnect False s = s"
  by (simp add: scheduleReconnect_def)

lemma scheduleReconnect_disconnecting:
  "isUserDisconnecting s \<Longrightarrow> scheduleReconnect seen s = s"
  by (simp add: scheduleReconnect_def)

lemma clearReconnectTimer_keeps:
  "isActive (clearReconnectTimer s) = isActive s"
  "isUserDisconnecting (clearReconnectTimer s) = isUserDisconnecting s"
  "reconnectAttempts (clearReconnectTimer s) = reconnectAttempts s"
  "nextHandle (clearReconnectTimer s) = nextHandle s"
  "conversationLogId (clearReconnectTimer s) = conversationLogId s"
  "bookingCreated (clearReconnectTimer s) = bookingCreated s"
  "logService (clearReconnectTimer s) = logService s"
  "agentError (clearReconnectTimer s) = agentError s"
  "clientRef (clearReconnectTimer s) = clientRef s"
  "awaited (clearReconnectTimer s) = awaited s"
  "dateNow (clearReconnectTimer s) = dateNow s"
  by (simp_all add: clearReconnectTimer_def split: option.splits)

lemma clearReconnectTimer_none:
  "armedReconnects s = [] \<Longrightarrow> armedReconnects (clearReconnectTimer s) = []"
  by (simp add: clearReconnectTimer_def split: option.splits)

text \<open>
  With an \<open>isActive\<close> that is true, \<open>scheduleReconnect\<close> arms a reconnect as long as the
  attempts are fewer than \<open>MAX_RECONNECTS\<close>, and then ends the session.
\<close>

lemma scheduleReconnect_terminal:
  "\<not> isUserDisconnecting s \<Longrightarrow> MAX_RECONNECTS \<le> reconnectAttempts s \<Longrightarrow>
     scheduleReconnect True s =
       s\<lparr>agentError := Some ConnectionUnstable, agentStatus := Idle, isActive := False\<rparr>"
  by (simp add: scheduleReconnect_def)

lemma scheduleReconnect_arms:
  assumes "\<not> isUserDisconnecting s" and "reconnectAttempts s < MAX_RECONNECTS"
  shows "\<not> isUserDisconnecting (scheduleReconnect True s)"
    and "reconnectAttempts (scheduleReconnect True s) = Suc (reconnectAttempts s)"
    and "agentError (scheduleReconnect True s)
           = Some (Reconnecting (Suc (reconnectAttempts s)) MAX_RECONNECTS)"
    and "reconnectTimer (scheduleReconnect True s) = Some (nextHandle s)"
    and "(nextHandle s, True) \<in> set (armedReconnects (scheduleReconnect True s))"
  using assms by (simp_all add: scheduleReconnect_def Let_def clearReconnectTimer_keeps)

section \<open>The handlers that the client holds\<close>

lemma staleHandlers_mounted: "staleHandlers mounted"
  by (simp add: staleHandlers_def mounted_def)

lemma staleHandlers_toggle: "staleHandlers s \<Longrightarrow> staleHandlers (handleToggle s)"
  by (auto simp: staleHandlers_def handleToggle_def sessionStopped_def Let_def
      clearReconnectTimer_keeps clearReconnectTimer_none split: option.splits)

lemma staleAwait_others:
  "list_all staleAwait cs \<Longrightarrow> list_all staleAwait (take i cs @ drop (Suc i) cs)"
  by (auto simp: list_all_iff dest: in_set_takeD in_set_dropD)

lemma staleHandlers_resume:
  assumes "staleAwait c" and "staleHandlers s"
  shows "staleHandlers (resume c ok s)"
  using assms
  by (cases c) (auto simp: staleHandlers_def sessionStopped_def Let_def)

lemma staleHandlers_settles: "staleHandlers s \<Longrightarrow> staleHandlers (settles i ok s)"
proof (cases "i < length (awaited s)")
  case True
  assume s: "staleHandlers s"
  then have c: "staleAwait (awaited s ! i)"
    using True by (simp add: staleHandlers_def list_all_length)
  have "staleHandlers (s\<lparr>awaited := take i (awaited s) @ drop (Suc i) (awaited s)\<rparr>)"
    using s staleAwait_others [of "awaited s" i] by (simp add: staleHandlers_def)
  then show ?thesis
    using True c staleHandlers_resume by (simp add: settles_def)
next
  case False
  assume "staleHandlers s"
  then show ?thesis
    using False by (simp add: settles_def)
qed

lemma staleHandlers_emits: "staleHandlers s \<Longrightarrow> staleHandlers (clientEmits ev s)"
proof (cases "clientRef s")
  case None
  assume "staleHandlers s"
  then show ?thesis using None by (simp add: clientEmits_def)
next
  case (Some seen)
  assume s: "staleHandlers s"
  then have "\<not> seen"
    using Some by (simp add: staleHandlers_def)
  then show ?thesis
    using s Some
    by (cases ev) (simp_all add: clientEmits_def scheduleReconnect_stale staleHandlers_def)
qed

lemma stale_close: "clientRef s \<noteq> Some True \<Longrightarrow> clientEmits CloseEvent s = s"
  by (cases "clientRef s") (auto simp: clientEmits_def scheduleReconnect_stale)

lemma stale_error: "clientRef s \<noteq> Some True \<Longrightarrow> clientEmits ErrorEvent s = s"
  by (cases "clientRef s") (auto simp: clientEmits_def scheduleReconnect_stale)

lemma staleHandlers_timer: "staleHandlers s \<Longrightarrow> staleHandlers (reconnectTimerFires h s)"
  by (simp add: staleHandlers_def reconnectTimerFires_def)

lemma staleHandlers_step: "staleHandlers s \<Longrightarrow> staleHandlers (sessionStep st s ev)"
proof (cases ev)
  case Press
  assume "staleHandlers s"
  then show ?thesis using Press staleHandlers_toggle by simp
next
  case (Settles i ok)
  assume "staleHandlers s"
  then show ?thesis using Settles staleHandlers_settles by simp
next
  case (Emits lev)
  assume "staleHandlers s"
  then show ?thesis using Emits staleHandlers_emits by simp
next
  case (TimerFires h)
  assume "staleHandlers s"
  then show ?thesis using TimerFires staleHandlers_timer by simp
next
  case (ToolCalled e call)
  assume "staleHandlers s"
  then show ?thesis
    using ToolCalled by (simp add: staleHandlers_def handleToolCall_fields)
next
  case (BatchEnds responses calls)
  assume "staleHandlers s"
  then show ?thesis
    using BatchEnds by (simp add: staleHandlers_def recordResponses_fields)
qed

lemma staleHandlers_run: "staleHandlers s \<Longrightarrow> staleHandlers (runSession st evs s)"
  by (induction evs arbitrary: s) (simp_all add: runSession_def staleHandlers_step)

lemma running_state:
  "running = mounted\<lparr>agentStatus := Listening, logService := [StartLog 0],
               conversationLogId := Some 0, clientRef := Some False, isActive := True\<rparr>"
  by (simp add: running_def runSession_def handleToggle_def settles_def clientEmits_def
      mounted_def Let_def)

lemma closes_ignored:
  "clientRef s \<noteq> Some True \<Longrightarrow> runSession st (replicate n (Emits CloseEvent)) s = s"
  by (induction n) (simp_all add: runSession_def stale_close)

lemma errors_ignored:
  "clientRef s \<noteq> Some True \<Longrightarrow> runSession st (replicate n (Emits ErrorEvent)) s = s"
  by (induction n) (simp_all add: runSession_def stale_error)

text \<open>
  Claim C6 fails on the code. The client is given the \<open>handleLiveEvent\<close> of the render
  in which the user pressed the button, when \<open>isActive\<close> was false, and keeps it; so
  does every client built later. In a session that is running, any number of close or
  error events of the connection therefore leave the state as it is: the session stays
  active, no terminal error is shown and no reconnect is armed. Whatever happens in
  the component after it is mounted, no reconnect is ever armed and the terminal error
  is never shown.
\<close>

theorem failures_change_nothing:
  "isActive running \<and> \<not> isUserDisconnecting running \<and> reconnectAttempts running = 0
   \<and> agentError running = None
   \<and> runSession st (replicate n (Emits CloseEvent)) running = running
   \<and> runSession st (replicate n (Emits ErrorEvent)) running = running
   \<and> armedReconnects (runSession st evs mounted) = []
   \<and> agentError (runSession st evs mounted) \<noteq> Some ConnectionUnstable"
proof -
  have r: "isActive running \<and> \<not> isUserDisconnecting running \<and> reconnectAttempts running = 0
      \<and> agentError running = None \<and> clientRef running \<noteq> Some True"
    by (simp add: running_state) (simp add: mounted_def)
  have "staleHandlers (runSession st evs mounted)"
    using staleHandlers_run [OF staleHandlers_mounted] .
  then have "armedReconnects (runSession st evs mounted) = []
      \<and> agentError (runSession st evs mounted) \<noteq> Some ConnectionUnstable"
    by (simp add: staleHandlers_def)
  then show ?thesis
    using r closes_ignored errors_ignored by simp
qed

section \<open>Tool calls and the conversation log\<close>

























section \<open>Every call is answered\<close>



















end
